theory Spec2Isabelle
  imports Main "HOL-Library.Word"
begin

unbundle bit_operations_syntax

section \<open>Identifiers\<close>

text \<open>
  A \<^verbatim>\<open>uuid.UUID\<close> of the library \<^verbatim>\<open>google/uuid\<close> is a Go array of sixteen bytes. The
  datatype below has one field per byte, so that every value of the type is a well-formed
  identifier and equality is the array equality of Go. Printing and parsing follow the
  library: \<^verbatim>\<open>String\<close> gives the canonical lower-case form, and \<^verbatim>\<open>Parse\<close> reads it back.
\<close>

type_synonym byte = "8 word"

datatype uuid =
  UUID byte byte byte byte byte byte byte byte byte byte byte byte byte byte byte byte

fun uuid_bytes :: "uuid \<Rightarrow> byte list" where
  "uuid_bytes (UUID b0 b1 b2 b3 b4 b5 b6 b7 b8 b9 b10 b11 b12 b13 b14 b15) =
     [b0, b1, b2, b3, b4, b5, b6, b7, b8, b9, b10, b11, b12, b13, b14, b15]"

text \<open>\<^verbatim>\<open>uuid.Nil\<close>: the all-zero identifier.\<close>

definition uuid_Nil :: uuid where
  "uuid_Nil = UUID 0 0 0 0 0 0 0 0 0 0 0 0 0 0 0 0"

text \<open>
  \<^verbatim>\<open>encoding/hex\<close>: a byte is written as two lower-case digits, high nibble first.
\<close>

definition hextable :: string where
  "hextable = ''0123456789abcdef''"

definition hexhi :: "byte \<Rightarrow> char" where
  "hexhi b = hextable ! unat (drop_bit 4 b)"

definition hexlo :: "byte \<Rightarrow> char" where
  "hexlo b = hextable ! unat (b AND 15)"

definition hex_byte :: "byte \<Rightarrow> string" where
  "hex_byte b = [hexhi b, hexlo b]"

definition hex_Encode :: "byte list \<Rightarrow> string" where
  "hex_Encode bs = concat (map hex_byte bs)"

text \<open>
  \<^verbatim>\<open>UUID.String\<close>: the form \<^verbatim>\<open>xxxxxxxx-xxxx-xxxx-xxxx-xxxxxxxxxxxx\<close>, that is the bytes
  0..3, 4..5, 6..7, 8..9 and 10..15 in hexadecimal, separated by dashes.
\<close>

definition uuid_String :: "uuid \<Rightarrow> string" where
  "uuid_String u =
     (let bs = uuid_bytes u in
      hex_Encode (take 4 bs) @ ''-'' @ hex_Encode (take 2 (drop 4 bs)) @ ''-'' @
      hex_Encode (take 2 (drop 6 bs)) @ ''-'' @ hex_Encode (take 2 (drop 8 bs)) @ ''-'' @
      hex_Encode (drop 10 bs))"

text \<open>
  The value of one hexadecimal digit, in either case; \<open>None\<close> stands for the entry
  255 of the library's table, which marks a byte that is no digit.
\<close>

definition xvalue :: "char \<Rightarrow> byte option" where
  "xvalue c =
     (let n = (of_char c :: nat) in
      if 48 \<le> n \<and> n \<le> 57 then Some (of_nat (n - 48))
      else if 97 \<le> n \<and> n \<le> 102 then Some (of_nat (n - 87))
      else if 65 \<le> n \<and> n \<le> 70 then Some (of_nat (n - 55))
      else None)"

definition xtob :: "char \<Rightarrow> char \<Rightarrow> byte option" where
  "xtob x1 x2 =
     (case xvalue x1 of
        None \<Rightarrow> None
      | Some b1 \<Rightarrow> (case xvalue x2 of None \<Rightarrow> None | Some b2 \<Rightarrow> Some (push_bit 4 b1 OR b2)))"

fun xtobs :: "string \<Rightarrow> nat list \<Rightarrow> byte list option" where
  "xtobs s [] = Some []"
| "xtobs s (x # xs) =
     (case xtob (s ! x) (s ! Suc x) of
        None \<Rightarrow> None
      | Some v \<Rightarrow> (case xtobs s xs of None \<Rightarrow> None | Some vs \<Rightarrow> Some (v # vs)))"

fun uuid_of_bytes :: "byte list \<Rightarrow> uuid option" where
  "uuid_of_bytes [b0, b1, b2, b3, b4, b5, b6, b7, b8, b9, b10, b11, b12, b13, b14, b15] =
     Some (UUID b0 b1 b2 b3 b4 b5 b6 b7 b8 b9 b10 b11 b12 b13 b14 b15)"
| "uuid_of_bytes _ = None"

section \<open>Errors\<close>

text \<open>
  Go errors as values. \<open>ErrNoRows\<close> is \<^verbatim>\<open>sql.ErrNoRows\<close>; \<open>PqError code msg\<close> is an
  error of the database driver with the name of its condition code; \<open>Errorf fmt args e\<close>
  is \<^verbatim>\<open>xerrors.Errorf(fmt, args..., e)\<close> with the verb \<^verbatim>\<open>%w\<close>, which wraps \<open>e\<close>;
  \<open>ErrorString\<close> is any other error.
\<close>

datatype go_error =
    ErrNoRows
  | PqError string string
  | ErrorString string
  | Errorf string "string list" go_error

text \<open>\<^verbatim>\<open>errors.Is(err, sql.ErrNoRows)\<close>: the chain of wrapped errors is searched.\<close>

fun errors_Is_ErrNoRows :: "go_error \<Rightarrow> bool" where
  "errors_Is_ErrNoRows ErrNoRows = True"
| "errors_Is_ErrNoRows (Errorf f as e) = errors_Is_ErrNoRows e"
| "errors_Is_ErrNoRows _ = False"

text \<open>
  Modelled from the spec: \<^verbatim>\<open>database.IsUniqueViolation\<close> is declared outside the files at
  hand. It recognises "a uniqueness violation" of the storage layer: an error that is, or
  wraps, a driver error whose condition is \<^verbatim>\<open>unique_violation\<close>.
\<close>

fun IsUniqueViolation :: "go_error \<Rightarrow> bool" where
  "IsUniqueViolation (PqError code msg) = (code = ''unique_violation'')"
| "IsUniqueViolation (Errorf f as e) = IsUniqueViolation e"
| "IsUniqueViolation _ = False"

text \<open>
  Text handed to a response. Formatting is kept symbolic: \<open>Sprintf fmt args\<close> is
  \<^verbatim>\<open>fmt.Sprintf(fmt, args...)\<close> and \<open>ErrorText e\<close> is \<^verbatim>\<open>e.Error()\<close>.
\<close>

datatype message = Lit string | Sprintf string "string list" | ErrorText go_error

text \<open>A call that may panic: \<open>Panic\<close> carries the panic value.\<close>

datatype 'a go = Return 'a | Panic string

text \<open>
  \<^verbatim>\<open>uuid.Parse\<close> accepts the 36 character form, the same with the prefix
  \<^verbatim>\<open>urn:uuid:\<close> (in any case) or within one leading and one trailing character, and 32
  hexadecimal digits without dashes.
\<close>

definition ascii_lower :: "char \<Rightarrow> char" where
  "ascii_lower c =
     (let n = (of_char c :: nat) in if 65 \<le> n \<and> n \<le> 90 then char_of (n + 32) else c)"

definition EqualFold :: "string \<Rightarrow> string \<Rightarrow> bool" where
  "EqualFold s t = (map ascii_lower s = map ascii_lower t)"

definition parse_dashed :: "string \<Rightarrow> go_error + uuid" where
  "parse_dashed s =
     (if s ! 8 \<noteq> CHR ''-'' \<or> s ! 13 \<noteq> CHR ''-'' \<or> s ! 18 \<noteq> CHR ''-'' \<or> s ! 23 \<noteq> CHR ''-''
      then Inl (ErrorString ''invalid UUID format'')
      else (case xtobs s [0, 2, 4, 6, 9, 11, 14, 16, 19, 21, 24, 26, 28, 30, 32, 34] of
              None \<Rightarrow> Inl (ErrorString ''invalid UUID format'')
            | Some bs \<Rightarrow>
                (case uuid_of_bytes bs of
                   None \<Rightarrow> Inl (ErrorString ''invalid UUID format'')
                 | Some u \<Rightarrow> Inr u)))"

definition uuid_Parse :: "string \<Rightarrow> go_error + uuid" where
  "uuid_Parse s =
     (if length s = 36 then parse_dashed s
      else if length s = 36 + 9 then
        (if \<not> EqualFold (take 9 s) ''urn:uuid:''
         then Inl (ErrorString ''invalid urn prefix'')
         else parse_dashed (drop 9 s))
      else if length s = 36 + 2 then parse_dashed (drop 1 s)
      else if length s = 32 then
        (case xtobs s [0, 2, 4, 6, 8, 10, 12, 14, 16, 18, 20, 22, 24, 26, 28, 30] of
           None \<Rightarrow> Inl (ErrorString ''invalid UUID format'')
         | Some bs \<Rightarrow>
             (case uuid_of_bytes bs of
                None \<Rightarrow> Inl (ErrorString ''invalid UUID format'')
              | Some u \<Rightarrow> Inr u))
      else Inl (ErrorString ''invalid UUID length''))"

text \<open>\<^verbatim>\<open>uuid.MustParse\<close> panics where \<^verbatim>\<open>uuid.Parse\<close> fails.\<close>

definition uuid_MustParse :: "string \<Rightarrow> uuid go" where
  "uuid_MustParse s =
     (case uuid_Parse s of Inl e \<Rightarrow> Panic ''uuid: Parse: invalid'' | Inr u \<Rightarrow> Return u)"

section \<open>Rows of the store\<close>

text \<open>
  Modelled from the spec: the row types of package \<^verbatim>\<open>database\<close> are declared outside the
  files at hand. Each record has the fields the handlers and the middleware read, and the
  fields the data model of the spec gives the row (the name and the default flag of an
  organization; the email, the status and the roles of a user, which the member resolver
  must keep to itself). \<open>Group\<close> and \<open>User\<close> are the rows the group handlers work on;
  \<open>Organization\<close>, \<open>database_OrganizationMember\<close>, \<open>OrganizationMembersRow\<close> and \<open>User_v2\<close>
  are those of the organization middleware, whose user row holds the avatar as a plain
  string.
\<close>

record Group =
  Group_ID :: uuid
  Group_Name :: string
  Group_OrganizationID :: uuid

record NullString =
  NullString_String :: string
  NullString_Valid :: bool

record User =
  User_ID :: uuid
  User_Email :: string
  User_CreatedAt :: nat
  User_LastSeenAt :: nat
  User_Username :: string
  User_Status :: string
  User_RBACRoles :: "string list"
  User_AvatarURL :: NullString

record Organization =
  Organization_ID :: uuid
  Organization_Name :: string
  Organization_IsDefault :: bool

record database_OrganizationMember =
  Member_UserID :: uuid
  Member_OrganizationID :: uuid
  Member_Roles :: "string list"

record OrganizationMembersRow =
  Row_OrganizationMember :: database_OrganizationMember
  Row_Username :: string
  Row_AvatarURL :: string
  Row_Email :: string

record User_v2 =
  User_v2_ID :: uuid
  User_v2_Email :: string
  User_v2_Username :: string
  User_v2_HashedPassword :: string
  User_v2_Status :: string
  User_v2_RBACRoles :: "string list"
  User_v2_AvatarURL :: string

text \<open>
  \<^verbatim>\<open>httpmw.OrganizationMember\<close>: the membership row plus the username and the avatar URL.
\<close>

record httpmw_OrganizationMember =
  OrganizationMember :: database_OrganizationMember
  Username :: string
  AvatarURL :: string

section \<open>The store\<close>

text \<open>
  \<^verbatim>\<open>database.Store\<close> is an interface. Its implementation is outside the files at hand, so it
  is a parameter: a record of the operations the code calls, over any type \<open>'s\<close> of
  store states. A query reads the state; a command returns the state it leaves. The
  result of an operation is its error (\<open>Inl\<close>) or its rows (\<open>Inr\<close>).
\<close>

record 's Store =
  GetGroupByID :: "'s \<Rightarrow> uuid \<Rightarrow> go_error + Group"
  GetGroupByOrgAndName :: "'s \<Rightarrow> uuid \<times> string \<Rightarrow> go_error + Group"
  GetGroupMembers :: "'s \<Rightarrow> uuid \<Rightarrow> go_error + User list"
  GetOrganizationMemberByUserID :: "'s \<Rightarrow> uuid \<times> uuid \<Rightarrow> go_error + database_OrganizationMember"
  GetDefaultOrganization :: "'s \<Rightarrow> go_error + Organization"
  GetOrganizationByID :: "'s \<Rightarrow> uuid \<Rightarrow> go_error + Organization"
  GetOrganizationByName :: "'s \<Rightarrow> string \<Rightarrow> go_error + Organization"
  OrganizationMembers :: "'s \<Rightarrow> uuid \<times> uuid \<Rightarrow> go_error + OrganizationMembersRow list"
  UpdateGroupByID :: "'s \<Rightarrow> uuid \<times> string \<Rightarrow> (go_error + Group) \<times> 's"
  InsertGroupMember :: "'s \<Rightarrow> uuid \<times> uuid \<Rightarrow> go_error option \<times> 's"
  DeleteGroupMember :: "'s \<Rightarrow> uuid \<Rightarrow> go_error option \<times> 's"
  DeleteGroupByID :: "'s \<Rightarrow> uuid \<Rightarrow> go_error option \<times> 's"

text \<open>
  Modelled from the spec: \<^verbatim>\<open>Store.InTx\<close>, the transaction of the store, is implemented
  outside the files at hand. The spec: "within one all-or-nothing transaction", "a
  failure aborts the whole transaction", "on abort, no partial effect may be observable".
  So the function runs on the state; when it returns no error its state is kept, and when
  it returns an error (or panics) the state is the one before the call.
\<close>

definition InTx :: "('s \<Rightarrow> (go_error + 'a) go \<times> 's) \<Rightarrow> 's \<Rightarrow> (go_error + 'a) go \<times> 's" where
  "InTx f s =
     (case f s of
        (Return (Inr a), s') \<Rightarrow> (Return (Inr a), s')
      | (Return (Inl err), s') \<Rightarrow> (Return (Inl err), s)
      | (Panic p, s') \<Rightarrow> (Panic p, s))"

text \<open>
  Modelled from the spec: \<^verbatim>\<open>database.ExpectOne\<close> is declared outside the files at hand.
  The spec: "expect at most one match -- more than one is an internal-consistency error";
  no match is the not-found condition.
\<close>

definition ExpectOne :: "go_error + 'a list \<Rightarrow> go_error + 'a" where
  "ExpectOne ret =
     (case ret of
        Inl err \<Rightarrow> Inl err
      | Inr [] \<Rightarrow> Inl ErrNoRows
      | Inr [x] \<Rightarrow> Inr x
      | Inr (x # y # zs) \<Rightarrow> Inl (ErrorString ''too many rows returned, expected 1''))"

text \<open>
  Modelled from the spec: the reserved names are constants declared outside the files at
  hand: \<^verbatim>\<open>database.AllUsersGroup\<close>, the reserved "all users" group name, and
  \<^verbatim>\<open>codersdk.DefaultOrganization\<close>, the reserved alias "default".
\<close>

definition AllUsersGroup :: string where
  "AllUsersGroup = ''Everyone''"

definition DefaultOrganization :: string where
  "DefaultOrganization = ''default''"

section \<open>Requests and responses\<close>

text \<open>
  The context of a request is a chain of key-value pairs; \<^verbatim>\<open>context.WithValue\<close> puts a
  pair in front and \<^verbatim>\<open>Value\<close> finds the first pair of a key. The keys are the private key
  types of the middleware. A value is of any type: the constructors are the types stored
  or asserted here, and a full user row, which a context can hold as well.
\<close>

datatype ctx_key =
  groupParamContextKey | organizationParamContextKey | organizationMemberParamContextKey
  | userParamContextKey

datatype ctx_value =
    GroupValue Group
  | OrganizationValue Organization
  | OrganizationMemberValue httpmw_OrganizationMember
  | UserValue User_v2

type_synonym go_context = "(ctx_key \<times> ctx_value) list"

definition WithValue :: "go_context \<Rightarrow> ctx_key \<Rightarrow> ctx_value \<Rightarrow> go_context" where
  "WithValue ctx k v = (k, v) # ctx"

definition Value :: "go_context \<Rightarrow> ctx_key \<Rightarrow> ctx_value option" where
  "Value ctx k = map_of ctx k"

text \<open>
  A request: its context, the URL parameters of the route context of chi (keys and values
  in the order they were added), and what else arrived with it.
\<close>

record request =
  Context :: go_context
  URLParams :: "(string \<times> string) list"
  Header :: "(string \<times> string) list"
  Body :: string

text \<open>
  \<^verbatim>\<open>RouteParams.Add\<close> appends a key and its value; \<^verbatim>\<open>chi.URLParam\<close> searches from the
  last pair to the first and gives the empty string for a key that is absent.
\<close>

definition URLParams_Add :: "(string \<times> string) list \<Rightarrow> string \<Rightarrow> string \<Rightarrow> (string \<times> string) list" where
  "URLParams_Add ps k v = ps @ [(k, v)]"

definition URLParam :: "request \<Rightarrow> string \<Rightarrow> string" where
  "URLParam r k = (case map_of (rev (URLParams r)) k of None \<Rightarrow> [] | Some v \<Rightarrow> v)"

text \<open>The types of package \<^verbatim>\<open>codersdk\<close> that travel in a response.\<close>

record codersdk_Response =
  Message :: message
  Detail :: "message option"

record codersdk_Role =
  Role_Name :: string
  Role_DisplayName :: string

record codersdk_User =
  sdk_ID :: uuid
  sdk_Email :: string
  sdk_CreatedAt :: nat
  sdk_LastSeenAt :: nat
  sdk_Username :: string
  sdk_Status :: string
  sdk_OrganizationIDs :: "uuid list"
  sdk_Roles :: "codersdk_Role list"
  sdk_AvatarURL :: string

record codersdk_Group =
  sdk_Group_ID :: uuid
  sdk_Group_Name :: string
  sdk_Group_OrganizationID :: uuid
  sdk_Group_Members :: "codersdk_User list"

record PatchGroupRequest =
  AddUsers :: "string list"
  RemoveUsers :: "string list"
  Name :: string

record rbac_Role =
  rbac_Name :: string
  rbac_DisplayName :: string

datatype rbac_Action = ActionCreate | ActionRead | ActionUpdate | ActionDelete

text \<open>
  What was written to the \<^verbatim>\<open>http.ResponseWriter\<close>: the status and the body, which is a
  JSON document of \<^verbatim>\<open>httpapi.Write\<close> or the plain text of the standard library.
\<close>

datatype payload =
    ResponseJSON codersdk_Response
  | GroupJSON codersdk_Group
  | PlainText string

record response =
  status :: nat
  payload :: payload

definition httpapi_Write :: "nat \<Rightarrow> payload \<Rightarrow> response" where
  "httpapi_Write code body = \<lparr>status = code, payload = body\<rparr>"

text \<open>
  \<^verbatim>\<open>http.NotFound\<close> of the standard library: status 404 and the text
  \<^verbatim>\<open>404 page not found\<close> with a line feed.
\<close>

definition http_NotFound :: response where
  "http_NotFound = \<lparr>status = 404, payload = PlainText (''404 page not found'' @ [CHR 0x0A])\<rparr>"

text \<open>
  Modelled from the spec: \<^verbatim>\<open>httpapi.ResourceNotFound\<close> and
  \<^verbatim>\<open>httpapi.InternalServerError\<close> are declared outside the files at hand. The spec:
  "structured error body {message, detail?}" with status 404 for "resource not found", and
  500 for "internal, with detail for diagnostics only".
\<close>

definition ResourceNotFound :: response where
  "ResourceNotFound =
     httpapi_Write 404 (ResponseJSON
       \<lparr>Message = Lit ''Resource not found or you do not have access to this resource'',
        Detail = None\<rparr>)"

definition InternalServerError :: "go_error \<Rightarrow> response" where
  "InternalServerError err =
     httpapi_Write 500 (ResponseJSON
       \<lparr>Message = Lit ''An internal server error occurred.'', Detail = Some (ErrorText err)\<rparr>)"

text \<open>
  A handler reads the request and the store; it returns what it wrote, or panics, and
  the state it leaves the store in.
\<close>

type_synonym 's handler = "request \<Rightarrow> 's \<Rightarrow> response go \<times> 's"

section \<open>Middleware: resolving the group, the organization and the member\<close>

text \<open>
  The helpers of the middleware that are declared outside the files at hand are
  parameters: \<^verbatim>\<open>parseUUID\<close> gives the identifier in a URL parameter or the response it wrote;
  \<^verbatim>\<open>extractUserContext\<close> resolves the user of the route under the context it is given, or
  gives the response it wrote; \<^verbatim>\<open>dbauthz.AsSystemRestricted\<close> derives the elevated context;
  \<^verbatim>\<open>httpapi.Is404Error\<close> tells the not-found condition.
\<close>

record 's httpmw =
  parseUUID :: "request \<Rightarrow> string \<Rightarrow> response + uuid"
  extractUserContext :: "go_context \<Rightarrow> 's Store \<Rightarrow> request \<Rightarrow> 's \<Rightarrow> response + User_v2"
  AsSystemRestricted :: "go_context \<Rightarrow> go_context"
  Is404Error :: "go_error \<Rightarrow> bool"

text \<open>The accessors panic where the value is absent or of another type.\<close>

definition GroupParam :: "request \<Rightarrow> Group go" where
  "GroupParam r =
     (case Value (Context r) groupParamContextKey of
        Some (GroupValue grp) \<Rightarrow> Return grp
      | _ \<Rightarrow> Panic ''developer error: group param middleware not provided'')"

definition OrganizationParam :: "request \<Rightarrow> Organization go" where
  "OrganizationParam r =
     (case Value (Context r) organizationParamContextKey of
        Some (OrganizationValue organization) \<Rightarrow> Return organization
      | _ \<Rightarrow> Panic ''developer error: organization param middleware not provided'')"

definition OrganizationMemberParam :: "request \<Rightarrow> httpmw_OrganizationMember go" where
  "OrganizationMemberParam r =
     (case Value (Context r) organizationMemberParamContextKey of
        Some (OrganizationMemberValue organizationMember) \<Rightarrow> Return organizationMember
      | _ \<Rightarrow> Panic ''developer error: organization member param middleware not provided'')"

text \<open>
  \<^verbatim>\<open>ExtractGroupParam\<close>: the group of the URL parameter \<^verbatim>\<open>group\<close>. On success the group
  is put into the context and the identifier of its organization is added to the URL
  parameters under \<^verbatim>\<open>organization\<close>.
\<close>

definition ExtractGroupParam :: "'s httpmw \<Rightarrow> 's Store \<Rightarrow> 's handler \<Rightarrow> 's handler" where
  "ExtractGroupParam mw db next r s =
     (case parseUUID mw r ''group'' of
        Inl resp \<Rightarrow> (Return resp, s)
      | Inr groupID \<Rightarrow>
          (case GetGroupByID db s groupID of
             Inl err \<Rightarrow>
               if errors_Is_ErrNoRows err then (Return ResourceNotFound, s)
               else (Return (httpapi_Write 500 (ResponseJSON
                      \<lparr>Message = Lit ''Internal error fetching group.'',
                       Detail = Some (ErrorText err)\<rparr>)), s)
           | Inr grp \<Rightarrow>
               next (r\<lparr>Context := WithValue (Context r) groupParamContextKey (GroupValue grp),
                       URLParams := URLParams_Add (URLParams r) ''organization''
                                      (uuid_String (Group_OrganizationID grp))\<rparr>) s))"

text \<open>
  \<^verbatim>\<open>ExtractOrganizationParam\<close>: the organization of the URL parameter
  \<^verbatim>\<open>organization\<close>, which is the alias of the default organization, the all-zero
  identifier, an identifier or a name.
\<close>

definition ExtractOrganizationParam :: "'s httpmw \<Rightarrow> 's Store \<Rightarrow> 's handler \<Rightarrow> 's handler" where
  "ExtractOrganizationParam mw db next r s =
     (let arg = URLParam r ''organization'' in
      if arg = [] then
        (Return (httpapi_Write 400 (ResponseJSON
           \<lparr>Message = Lit ([CHR 0x22] @ ''organization'' @ [CHR 0x22] @ '' must be provided.''),
            Detail = None\<rparr>)), s)
      else
        (case (if arg = DefaultOrganization \<or> arg = uuid_String uuid_Nil
               then GetDefaultOrganization db s
               else (case uuid_Parse arg of
                       Inr oid \<Rightarrow> GetOrganizationByID db s oid
                     | Inl err \<Rightarrow> GetOrganizationByName db s arg)) of
           Inl dbErr \<Rightarrow>
             if Is404Error mw dbErr then (Return ResourceNotFound, s)
             else (Return (httpapi_Write 500 (ResponseJSON
                    \<lparr>Message = Sprintf ''Internal error fetching organization %q.'' [arg],
                     Detail = Some (ErrorText dbErr)\<rparr>)), s)
         | Inr organization \<Rightarrow>
             next (r\<lparr>Context := WithValue (Context r) organizationParamContextKey
                                   (OrganizationValue organization)\<rparr>) s))"

text \<open>
  \<^verbatim>\<open>ExtractOrganizationMemberParam\<close>: the membership of the user of the route in the
  organization of the context. The user is resolved under the elevated context and is a
  local value of the middleware.
\<close>

definition ExtractOrganizationMemberParam :: "'s httpmw \<Rightarrow> 's Store \<Rightarrow> 's handler \<Rightarrow> 's handler" where
  "ExtractOrganizationMemberParam mw db next r s =
     (case extractUserContext mw (AsSystemRestricted mw (Context r)) db r s of
        Inl resp \<Rightarrow> (Return resp, s)
      | Inr user \<Rightarrow>
          (case OrganizationParam r of
             Panic p \<Rightarrow> (Panic p, s)
           | Return organization \<Rightarrow>
               (case ExpectOne (OrganizationMembers db s
                                 (Organization_ID organization, User_v2_ID user)) of
                  Inl err \<Rightarrow>
                    if Is404Error mw err then (Return ResourceNotFound, s)
                    else (Return (httpapi_Write 500 (ResponseJSON
                           \<lparr>Message = Lit ''Internal error fetching organization member.'',
                            Detail = Some (ErrorText err)\<rparr>)), s)
                | Inr organizationMember \<Rightarrow>
                    next (r\<lparr>Context := WithValue (Context r) organizationMemberParamContextKey
                              (OrganizationMemberValue
                                 \<lparr>OrganizationMember = Row_OrganizationMember organizationMember,
                                  Username = User_v2_Username user,
                                  AvatarURL = User_v2_AvatarURL user\<rparr>)\<rparr>) s)))"

section \<open>Handlers of the groups\<close>

text \<open>
  The receiver of the handlers: the store and the authorization gate. With it travel the
  two functions the handlers call that are declared outside the files at hand:
  \<^verbatim>\<open>httpapi.Read\<close> at the type of the update request, which gives the decoded body or the
  response it wrote, and \<^verbatim>\<open>rbac.RoleByName\<close>, whose error the caller drops.
\<close>

record 's API =
  Database :: "'s Store"
  Authorize :: "request \<Rightarrow> rbac_Action \<Rightarrow> Group \<Rightarrow> bool"
  httpapi_Read :: "request \<Rightarrow> response + PatchGroupRequest"
  RoleByName :: "string \<Rightarrow> rbac_Role"

definition convertRole :: "rbac_Role \<Rightarrow> codersdk_Role" where
  "convertRole role = \<lparr>Role_Name = rbac_Name role, Role_DisplayName = rbac_DisplayName role\<rparr>"

definition convertUser :: "(string \<Rightarrow> rbac_Role) \<Rightarrow> User \<Rightarrow> uuid list \<Rightarrow> codersdk_User" where
  "convertUser roleByName user organizationIDs =
     \<lparr>sdk_ID = User_ID user,
      sdk_Email = User_Email user,
      sdk_CreatedAt = User_CreatedAt user,
      sdk_LastSeenAt = User_LastSeenAt user,
      sdk_Username = User_Username user,
      sdk_Status = User_Status user,
      sdk_OrganizationIDs = organizationIDs,
      sdk_Roles = map (\<lambda>roleName. convertRole (roleByName roleName)) (User_RBACRoles user),
      sdk_AvatarURL = NullString_String (User_AvatarURL user)\<rparr>"

text \<open>A key that is absent from a Go map reads as the zero value, here the empty list.\<close>

definition convertUsers :: "(string \<Rightarrow> rbac_Role) \<Rightarrow> User list \<Rightarrow> (uuid \<rightharpoonup> uuid list) \<Rightarrow> codersdk_User list" where
  "convertUsers roleByName users organizationIDsByUserID =
     map (\<lambda>u. convertUser roleByName u
                 (case organizationIDsByUserID (User_ID u) of None \<Rightarrow> [] | Some ids \<Rightarrow> ids))
         users"

definition convertGroup :: "(string \<Rightarrow> rbac_Role) \<Rightarrow> Group \<Rightarrow> User list \<Rightarrow> codersdk_Group" where
  "convertGroup roleByName g users =
     (let orgs = fold (\<lambda>user orgs. orgs(User_ID user \<mapsto> [Group_OrganizationID g])) users Map.empty
      in \<lparr>sdk_Group_ID = Group_ID g,
          sdk_Group_Name = Group_Name g,
          sdk_Group_OrganizationID = Group_OrganizationID g,
          sdk_Group_Members = convertUsers roleByName users orgs\<rparr>)"

text \<open>
  \<^verbatim>\<open>patchGroup\<close>, the loop over the added and the removed user ids: the first id that is
  no identifier, or no member of the organization of the group, or whose lookup fails,
  ends the request with the response given; \<open>None\<close> lets the handler go on.
\<close>

fun patchGroup_users :: "'s API \<Rightarrow> Group \<Rightarrow> string list \<Rightarrow> 's \<Rightarrow> response option go" where
  "patchGroup_users api grp [] s = Return None"
| "patchGroup_users api grp (uid # uids) s =
     (case uuid_Parse uid of
        Inl err \<Rightarrow>
          Return (Some (httpapi_Write 400 (ResponseJSON
            \<lparr>Message = Sprintf ''ID %q must be a valid user UUID.'' [uid], Detail = None\<rparr>)))
      | Inr parsed \<Rightarrow>
          (case uuid_MustParse uid of
             Panic p \<Rightarrow> Panic p
           | Return userID \<Rightarrow>
               (case GetOrganizationMemberByUserID (Database api) s
                       (Group_OrganizationID grp, userID) of
                  Inl err \<Rightarrow>
                    if errors_Is_ErrNoRows err then
                      Return (Some (httpapi_Write 412 (ResponseJSON
                        \<lparr>Message = Sprintf ''User %q must be a member of organization %q''
                                     [uid, uuid_String (Group_ID grp)],
                         Detail = None\<rparr>)))
                    else Return (Some (InternalServerError err))
                | Inr member \<Rightarrow> patchGroup_users api grp uids s)))"

text \<open>The function that runs in the transaction: the two loops and the function itself.\<close>

fun patchGroup_insert :: "'s Store \<Rightarrow> Group \<Rightarrow> string list \<Rightarrow> 's \<Rightarrow> go_error option go \<times> 's" where
  "patchGroup_insert tx grp [] s = (Return None, s)"
| "patchGroup_insert tx grp (uid # uids) s =
     (case uuid_MustParse uid of
        Panic p \<Rightarrow> (Panic p, s)
      | Return userID \<Rightarrow>
          (case InsertGroupMember tx s (Group_ID grp, userID) of
             (Some err, s') \<Rightarrow> (Return (Some (Errorf ''insert group member %q: %w'' [uid] err)), s')
           | (None, s') \<Rightarrow> patchGroup_insert tx grp uids s'))"

fun patchGroup_delete :: "'s Store \<Rightarrow> string list \<Rightarrow> 's \<Rightarrow> go_error option go \<times> 's" where
  "patchGroup_delete tx [] s = (Return None, s)"
| "patchGroup_delete tx (uid # uids) s =
     (case uuid_MustParse uid of
        Panic p \<Rightarrow> (Panic p, s)
      | Return userID \<Rightarrow>
          (case DeleteGroupMember tx s userID of
             (Some err, s') \<Rightarrow> (Return (Some (Errorf ''insert group member %q: %w'' [uid] err)), s')
           | (None, s') \<Rightarrow> patchGroup_delete tx uids s'))"

text \<open>
  The function assigns the updated row to the variable \<^verbatim>\<open>group\<close> of the handler, which
  reads it after a transaction without error only: its result is the error or that row.
\<close>

definition patchGroup_tx :: "'s Store \<Rightarrow> PatchGroupRequest \<Rightarrow> Group \<Rightarrow> 's \<Rightarrow> (go_error + Group) go \<times> 's" where
  "patchGroup_tx tx req grp s =
     (case (if Name req \<noteq> []
            then (case UpdateGroupByID tx s (Group_ID grp, Name req) of
                    (Inl err, s1) \<Rightarrow> (Inl (Errorf ''update group by ID: %w'' [] err), s1)
                  | (Inr updated, s1) \<Rightarrow> (Inr updated, s1))
            else (Inr grp, s)) of
        (Inl err, s1) \<Rightarrow> (Return (Inl err), s1)
      | (Inr grp1, s1) \<Rightarrow>
          (case patchGroup_insert tx grp1 (AddUsers req) s1 of
             (Panic p, s2) \<Rightarrow> (Panic p, s2)
           | (Return (Some err), s2) \<Rightarrow> (Return (Inl err), s2)
           | (Return None, s2) \<Rightarrow>
               (case patchGroup_delete tx (RemoveUsers req) s2 of
                  (Panic p, s3) \<Rightarrow> (Panic p, s3)
                | (Return (Some err), s3) \<Rightarrow> (Return (Inl err), s3)
                | (Return None, s3) \<Rightarrow> (Return (Inr grp1), s3))))"

text \<open>
  \<^verbatim>\<open>patchGroup\<close> from the transaction on: the transaction, the responses to its errors,
  and the roster read after it.
\<close>

definition patchGroup_commit :: "'s API \<Rightarrow> PatchGroupRequest \<Rightarrow> Group \<Rightarrow> 's \<Rightarrow> response go \<times> 's" where
  "patchGroup_commit api req grp s =
     (case InTx (patchGroup_tx (Database api) req grp) s of
        (Panic p, s') \<Rightarrow> (Panic p, s')
      | (Return (Inl err), s') \<Rightarrow>
          if IsUniqueViolation err then
            (Return (httpapi_Write 412 (ResponseJSON
               \<lparr>Message = Lit ''Cannot add the same user to a group twice!'',
                Detail = Some (ErrorText err)\<rparr>)), s')
          else if errors_Is_ErrNoRows err then
            (Return (httpapi_Write 412 (ResponseJSON
               \<lparr>Message = Lit ''Failed to add or remove non-existent group member'',
                Detail = Some (ErrorText err)\<rparr>)), s')
          else (Return (InternalServerError err), s')
      | (Return (Inr grp'), s') \<Rightarrow>
          (case GetGroupMembers (Database api) s' (Group_ID grp') of
             Inl err \<Rightarrow> (Return (InternalServerError err), s')
           | Inr members \<Rightarrow>
               (Return (httpapi_Write 200 (GroupJSON (convertGroup (RoleByName api) grp' members))),
                s')))"

definition patchGroup :: "'s API \<Rightarrow> 's handler" where
  "patchGroup api r s =
     (case GroupParam r of
        Panic p \<Rightarrow> (Panic p, s)
      | Return grp \<Rightarrow>
          if \<not> Authorize api r ActionUpdate grp then (Return http_NotFound, s)
          else
            (case httpapi_Read api r of
               Inl resp \<Rightarrow> (Return resp, s)
             | Inr req \<Rightarrow>
                 if Name req \<noteq> [] \<and> Name req = AllUsersGroup then
                   (Return (httpapi_Write 400 (ResponseJSON
                      \<lparr>Message = Sprintf ''%q is a reserved group name!'' [AllUsersGroup],
                       Detail = None\<rparr>)), s)
                 else
                   (case patchGroup_users api grp (AddUsers req @ RemoveUsers req) s of
                      Panic p \<Rightarrow> (Panic p, s)
                    | Return (Some resp) \<Rightarrow> (Return resp, s)
                    | Return None \<Rightarrow>
                        if Name req \<noteq> [] \<and>
                           \<not> isl (GetGroupByOrgAndName (Database api) s
                                       (Group_OrganizationID grp, Name req))
                        then
                          (Return (httpapi_Write 409 (ResponseJSON
                             \<lparr>Message = Sprintf ''A group with name %q already exists.'' [Name req],
                              Detail = None\<rparr>)), s)
                        else patchGroup_commit api req grp s)))"

definition deleteGroup :: "'s API \<Rightarrow> 's handler" where
  "deleteGroup api r s =
     (case GroupParam r of
        Panic p \<Rightarrow> (Panic p, s)
      | Return grp \<Rightarrow>
          if \<not> Authorize api r ActionDelete grp then (Return ResourceNotFound, s)
          else if Group_Name grp = AllUsersGroup then
            (Return (httpapi_Write 400 (ResponseJSON
               \<lparr>Message = Sprintf ''%q is a reserved group and cannot be deleted!'' [AllUsersGroup],
                Detail = None\<rparr>)), s)
          else
            (case DeleteGroupByID (Database api) s (Group_ID grp) of
               (Some err, s') \<Rightarrow> (Return (InternalServerError err), s')
             | (None, s') \<Rightarrow>
                 (Return (httpapi_Write 200 (ResponseJSON
                    \<lparr>Message = Lit ''Successfully deleted group!'', Detail = None\<rparr>)), s')))"

text \<open>
  \<^verbatim>\<open>group\<close>, the handler that reads one group. A roster query that fails with no rows
  leaves the handler with no users.
\<close>

definition group_handler :: "'s API \<Rightarrow> 's handler" where
  "group_handler api r s =
     (case GroupParam r of
        Panic p \<Rightarrow> (Panic p, s)
      | Return grp \<Rightarrow>
          if \<not> Authorize api r ActionRead grp then (Return ResourceNotFound, s)
          else
            (case GetGroupMembers (Database api) s (Group_ID grp) of
               Inl err \<Rightarrow>
                 if \<not> errors_Is_ErrNoRows err then (Return (InternalServerError err), s)
                 else (Return (httpapi_Write 200
                         (GroupJSON (convertGroup (RoleByName api) grp []))), s)
             | Inr users \<Rightarrow>
                 (Return (httpapi_Write 200
                    (GroupJSON (convertGroup (RoleByName api) grp users))), s)))"

section \<open>An in-memory store and sample requests\<close>

text \<open>
  The theorems below hold for every store and every gate. To run them on concrete rows
  this section gives one store that keeps its tables in lists, in the manner of a fake
  used in tests, and a few rows, requests and receivers.
\<close>

record mem =
  mem_orgs :: "Organization list"
  mem_org_members :: "(uuid \<times> uuid) list"
  mem_groups :: "Group list"
  mem_group_members :: "(uuid \<times> uuid) list"
  mem_users :: "User list"

definition mem_find :: "('a \<Rightarrow> bool) \<Rightarrow> 'a list \<Rightarrow> go_error + 'a" where
  "mem_find P xs = (case find P xs of None \<Rightarrow> Inl ErrNoRows | Some x \<Rightarrow> Inr x)"

definition mem_member_row :: "uuid \<times> uuid \<Rightarrow> database_OrganizationMember" where
  "mem_member_row p = \<lparr>Member_UserID = snd p, Member_OrganizationID = fst p, Member_Roles = []\<rparr>"

definition mem_store :: "mem Store" where
  "mem_store =
     \<lparr>GetGroupByID = (\<lambda>s gid. mem_find (\<lambda>g. Group_ID g = gid) (mem_groups s)),
      GetGroupByOrgAndName = (\<lambda>s p.
        mem_find (\<lambda>g. Group_OrganizationID g = fst p \<and> Group_Name g = snd p) (mem_groups s)),
      GetGroupMembers = (\<lambda>s gid.
        Inr (filter (\<lambda>u. (gid, User_ID u) \<in> set (mem_group_members s)) (mem_users s))),
      GetOrganizationMemberByUserID = (\<lambda>s p.
        if p \<in> set (mem_org_members s) then Inr (mem_member_row p) else Inl ErrNoRows),
      GetDefaultOrganization = (\<lambda>s. mem_find Organization_IsDefault (mem_orgs s)),
      GetOrganizationByID = (\<lambda>s oid. mem_find (\<lambda>org. Organization_ID org = oid) (mem_orgs s)),
      GetOrganizationByName = (\<lambda>s n. mem_find (\<lambda>org. Organization_Name org = n) (mem_orgs s)),
      OrganizationMembers = (\<lambda>s p.
        Inr (map (\<lambda>q. \<lparr>Row_OrganizationMember = mem_member_row q, Row_Username = [],
                        Row_AvatarURL = [], Row_Email = []\<rparr>)
               (filter (\<lambda>q. q = p) (mem_org_members s)))),
      UpdateGroupByID = (\<lambda>s p.
        case find (\<lambda>g. Group_ID g = fst p) (mem_groups s) of
          None \<Rightarrow> (Inl ErrNoRows, s)
        | Some g \<Rightarrow>
            (Inr (g\<lparr>Group_Name := snd p\<rparr>),
             s\<lparr>mem_groups :=
                 map (\<lambda>g. if Group_ID g = fst p then g\<lparr>Group_Name := snd p\<rparr> else g)
                     (mem_groups s)\<rparr>)),
      InsertGroupMember = (\<lambda>s p.
        if p \<in> set (mem_group_members s)
        then (Some (PqError ''unique_violation'' ''duplicate key value''), s)
        else (None, s\<lparr>mem_group_members := mem_group_members s @ [p]\<rparr>)),
      DeleteGroupMember = (\<lambda>s uid.
        if uid \<in> set (map snd (mem_group_members s))
        then (None, s\<lparr>mem_group_members := filter (\<lambda>q. snd q \<noteq> uid) (mem_group_members s)\<rparr>)
        else (Some ErrNoRows, s)),
      DeleteGroupByID = (\<lambda>s gid.
        if gid \<in> set (map Group_ID (mem_groups s))
        then (None, s\<lparr>mem_groups := filter (\<lambda>g. Group_ID g \<noteq> gid) (mem_groups s)\<rparr>)
        else (Some ErrNoRows, s))\<rparr>"

definition sample_uuid :: "byte \<Rightarrow> uuid" where
  "sample_uuid b = UUID 0 0 0 0 0 0 0 0 0 0 0 0 0 0 0 b"

definition sample_user :: "byte \<Rightarrow> string \<Rightarrow> User" where
  "sample_user b n =
     \<lparr>User_ID = sample_uuid b, User_Email = n @ ''@example.com'', User_CreatedAt = 0,
      User_LastSeenAt = 0, User_Username = n, User_Status = ''active'',
      User_RBACRoles = [''member''],
      User_AvatarURL = \<lparr>NullString_String = [], NullString_Valid = False\<rparr>\<rparr>"

definition org_acme :: Organization where
  "org_acme = \<lparr>Organization_ID = sample_uuid 1, Organization_Name = ''acme'',
                Organization_IsDefault = False\<rparr>"

definition org_first :: Organization where
  "org_first = \<lparr>Organization_ID = sample_uuid 2, Organization_Name = ''first'',
                 Organization_IsDefault = True\<rparr>"

definition group_infra :: Group where
  "group_infra = \<lparr>Group_ID = sample_uuid 10, Group_Name = ''infra'',
                   Group_OrganizationID = sample_uuid 1\<rparr>"

definition group_everyone :: Group where
  "group_everyone = \<lparr>Group_ID = sample_uuid 11, Group_Name = AllUsersGroup,
                      Group_OrganizationID = sample_uuid 1\<rparr>"

text \<open>
  The sample state: users 21 and 22 belong to \<open>acme\<close>, user 23 does not, and user 22 is in
  the group \<open>infra\<close> already.
\<close>

definition sample_state :: mem where
  "sample_state =
     \<lparr>mem_orgs = [org_acme, org_first],
      mem_org_members = [(sample_uuid 1, sample_uuid 21), (sample_uuid 1, sample_uuid 22)],
      mem_groups = [group_infra, group_everyone],
      mem_group_members = [(sample_uuid 10, sample_uuid 22)],
      mem_users = [sample_user 21 ''alice'', sample_user 22 ''bob'', sample_user 23 ''carol'']\<rparr>"

definition sample_request :: "(string \<times> string) list \<Rightarrow> request" where
  "sample_request ps = \<lparr>Context = [], URLParams = ps, Header = [], Body = []\<rparr>"

definition with_group :: "Group \<Rightarrow> request" where
  "with_group g =
     \<lparr>Context = WithValue [] groupParamContextKey (GroupValue g),
      URLParams = [(''group'', uuid_String (Group_ID g)),
                   (''organization'', uuid_String (Group_OrganizationID g))],
      Header = [], Body = []\<rparr>"

text \<open>
  A receiver over the in-memory store whose gate answers \<open>allowed\<close> to every question and
  whose decoder gives the request \<open>req\<close>.
\<close>

definition sample_api :: "bool \<Rightarrow> PatchGroupRequest \<Rightarrow> mem API" where
  "sample_api allowed req =
     \<lparr>Database = mem_store,
      Authorize = (\<lambda>r action g. allowed),
      httpapi_Read = (\<lambda>r. Inr req),
      RoleByName = (\<lambda>n. \<lparr>rbac_Name = n, rbac_DisplayName = n\<rparr>)\<rparr>"

definition sample_user_v2 :: User_v2 where
  "sample_user_v2 =
     \<lparr>User_v2_ID = sample_uuid 21, User_v2_Email = ''alice@example.com'',
      User_v2_Username = ''alice'', User_v2_HashedPassword = ''$2a$10$secret'',
      User_v2_Status = ''active'', User_v2_RBACRoles = [''owner''],
      User_v2_AvatarURL = ''https://example.com/alice.png''\<rparr>"

text \<open>
  Sample helpers of the middleware: the identifier is parsed from the URL parameter, the
  user of the route is \<open>alice\<close>, and the not-found condition is the absence of rows.
\<close>

definition sample_mw :: "mem httpmw" where
  "sample_mw =
     \<lparr>parseUUID = (\<lambda>r param.
        case uuid_Parse (URLParam r param) of
          Inl err \<Rightarrow> Inl (httpapi_Write 400 (ResponseJSON
                      \<lparr>Message = Sprintf ''Invalid UUID %q.'' [param],
                       Detail = Some (ErrorText err)\<rparr>))
        | Inr u \<Rightarrow> Inr u),
      extractUserContext = (\<lambda>ctx db r s. Inr sample_user_v2),
      AsSystemRestricted = (\<lambda>ctx. ctx),
      Is404Error = errors_Is_ErrNoRows\<rparr>"

text \<open>A handler that answers with the name of the organization found in the context.\<close>

definition show_organization :: "'s handler" where
  "show_organization r s =
     (case OrganizationParam r of
        Panic p \<Rightarrow> (Panic p, s)
      | Return organization \<Rightarrow>
          (Return (httpapi_Write 200 (PlainText (Organization_Name organization))), s))"

text \<open>A handler that answers with the username and the avatar of the member in the context.\<close>

definition show_member :: "'s handler" where
  "show_member r s =
     (case OrganizationMemberParam r of
        Panic p \<Rightarrow> (Panic p, s)
      | Return member \<Rightarrow>
          (Return (httpapi_Write 200 (PlainText (Username member @ '' '' @ AvatarURL member))), s))"

text \<open>
  A handler that answers with the kinds of the values of the context, the latest first:
  \<^verbatim>\<open>g\<close> for a group, \<^verbatim>\<open>o\<close> for an organization, \<^verbatim>\<open>m\<close> for an organization member and
  \<^verbatim>\<open>u\<close> for a user row.
\<close>

definition show_context :: "'s handler" where
  "show_context r s =
     (Return (httpapi_Write 200 (PlainText
        (map (\<lambda>kv. case snd kv of
                     GroupValue g \<Rightarrow> CHR ''g''
                   | OrganizationValue org \<Rightarrow> CHR ''o''
                   | OrganizationMemberValue m \<Rightarrow> CHR ''m''
                   | UserValue u \<Rightarrow> CHR ''u'')
             (Context r)))), s)"

text \<open>
  A state in which the organization of the group \<open>infra\<close> carries the all-zero identifier,
  next to the default organization \<open>first\<close>.
\<close>

definition org_zero :: Organization where
  "org_zero = \<lparr>Organization_ID = uuid_Nil, Organization_Name = ''acme'',
                Organization_IsDefault = False\<rparr>"

definition group_zero :: Group where
  "group_zero = \<lparr>Group_ID = sample_uuid 10, Group_Name = ''infra'',
                  Group_OrganizationID = uuid_Nil\<rparr>"

definition zero_state :: mem where
  "zero_state =
     \<lparr>mem_orgs = [org_zero, org_first],
      mem_org_members = [],
      mem_groups = [group_zero],
      mem_group_members = [],
      mem_users = []\<rparr>"

text \<open>The requests of the examples.\<close>

definition req_add_two :: PatchGroupRequest where
  "req_add_two =
     \<lparr>AddUsers = [uuid_String (sample_uuid 21), uuid_String (sample_uuid 22)],
      RemoveUsers = [], Name = []\<rparr>"

definition req_rename_remove :: PatchGroupRequest where
  "req_rename_remove =
     \<lparr>AddUsers = [], RemoveUsers = [uuid_String (sample_uuid 21)], Name = ''platform''\<rparr>"

definition req_member_then_stranger :: PatchGroupRequest where
  "req_member_then_stranger =
     \<lparr>AddUsers = [uuid_String (sample_uuid 21)],
      RemoveUsers = [uuid_String (sample_uuid 23)], Name = []\<rparr>"

definition req_malformed_then_stranger :: PatchGroupRequest where
  "req_malformed_then_stranger =
     \<lparr>AddUsers = [''x'', uuid_String (sample_uuid 23)], RemoveUsers = [], Name = []\<rparr>"

definition req_reserved :: PatchGroupRequest where
  "req_reserved = \<lparr>AddUsers = [], RemoveUsers = [], Name = AllUsersGroup\<rparr>"

definition req_rename :: PatchGroupRequest where
  "req_rename = \<lparr>AddUsers = [], RemoveUsers = [], Name = ''platform''\<rparr>"

text \<open>A receiver whose store fails the lookup of a group by name with an internal error.\<close>

definition broken_lookup_api :: "PatchGroupRequest \<Rightarrow> mem API" where
  "broken_lookup_api req =
     (sample_api True req)
       \<lparr>Database := mem_store
          \<lparr>GetGroupByOrgAndName := (\<lambda>s p. Inl (ErrorString ''connection reset''))\<rparr>\<rparr>"

text \<open>A request to the member resolver: the organization \<open>acme\<close> is in the context.\<close>

definition member_request :: request where
  "member_request =
     \<lparr>Context = WithValue [] organizationParamContextKey (OrganizationValue org_acme),
      URLParams = [(''organization'', ''acme''), (''user'', ''alice'')],
      Header = [], Body = []\<rparr>"

section \<open>Identifiers: printing and parsing\<close>

lemma xvalue_hextable_all:
  "list_all (\<lambda>n. xvalue (hextable ! n) = Some (of_nat n)) [0..<16]"
  by code_simp

lemma xvalue_hextable: "n < 16 \<Longrightarrow> xvalue (hextable ! n) = Some (of_nat n)"
  using xvalue_hextable_all by (simp add: list_all_iff)

lemma hi_nibble: "unat (drop_bit 4 (b::byte)) < 16"
proof -
  have "unat b < 256"
    using unsigned_less [of b] by simp
  moreover have "unat (drop_bit 4 b) = drop_bit 4 (unat b)"
    by (rule unat_drop_bit_eq)
  then have "unat (drop_bit 4 b) = unat b div 2 ^ 4"
    by (simp only: drop_bit_eq_div)
  ultimately show ?thesis by simp
qed

lemma fifteen_mask: "(15::byte) = mask 4"
  by (simp add: mask_eq_exp_minus_1)

lemma lo_nibble: "unat ((b::byte) AND 15) < 16"
proof -
  have "unat (take_bit 4 b) = take_bit 4 (unat b)"
    by (rule unsigned_take_bit_eq)
  also have "\<dots> = unat b mod 2 ^ 4"
    by (rule take_bit_eq_mod)
  finally have "unat (b AND mask 4) = unat b mod 2 ^ 4"
    by (simp only: take_bit_eq_mask)
  then show ?thesis
    unfolding fifteen_mask by simp
qed

lemma nibbles_join: "push_bit 4 (drop_bit 4 b) OR (b AND 15) = (b::byte)"
  unfolding fifteen_mask by (rule bit_word_eqI) (auto simp: bit_simps)

lemma xtob_hex: "xtob (hexhi b) (hexlo b) = Some b"
  by (simp add: xtob_def hexhi_def hexlo_def xvalue_hextable hi_nibble lo_nibble nibbles_join)

lemma length_uuid_String: "length (uuid_String u) = 36"
  by (cases u) (simp add: uuid_String_def hex_Encode_def hex_byte_def)

lemma uuid_Parse_String: "uuid_Parse (uuid_String u) = Inr u"
proof (cases u)
  case (UUID b0 b1 b2 b3 b4 b5 b6 b7 b8 b9 b10 b11 b12 b13 b14 b15)
  have s: "uuid_String u =
    [hexhi b0, hexlo b0, hexhi b1, hexlo b1, hexhi b2, hexlo b2, hexhi b3, hexlo b3, CHR ''-'',
     hexhi b4, hexlo b4, hexhi b5, hexlo b5, CHR ''-'',
     hexhi b6, hexlo b6, hexhi b7, hexlo b7, CHR ''-'',
     hexhi b8, hexlo b8, hexhi b9, hexlo b9, CHR ''-'',
     hexhi b10, hexlo b10, hexhi b11, hexlo b11, hexhi b12, hexlo b12,
     hexhi b13, hexlo b13, hexhi b14, hexlo b14, hexhi b15, hexlo b15]"
    by (simp add: UUID uuid_String_def hex_Encode_def hex_byte_def)
  show ?thesis
    unfolding s by (simp add: uuid_Parse_def parse_dashed_def xtob_hex UUID)
qed

lemma uuid_MustParse_String: "uuid_MustParse (uuid_String u) = Return u"
  by (simp add: uuid_MustParse_def uuid_Parse_String)

lemma uuid_String_inject: "uuid_String u = uuid_String v \<longleftrightarrow> u = v"
proof
  assume "uuid_String u = uuid_String v"
  then have "uuid_Parse (uuid_String u) = uuid_Parse (uuid_String v)" by simp
  then show "u = v" by (simp add: uuid_Parse_String)
qed simp

lemma uuid_String_not_empty: "uuid_String u \<noteq> []"
  using length_uuid_String [of u] by auto

lemma uuid_String_not_default: "uuid_String u \<noteq> DefaultOrganization"
  using length_uuid_String [of u] by (auto simp: DefaultOrganization_def)

lemma uuid_Parse_MustParse: "uuid_Parse x = Inr u \<Longrightarrow> uuid_MustParse x = Return u"
  by (simp add: uuid_MustParse_def)

lemma sample_uuid_Nil: "sample_uuid a = uuid_Nil \<longleftrightarrow> a = 0"
  by (simp add: sample_uuid_def uuid_Nil_def)

section \<open>Conversion\<close>

lemma fold_orgs:
  "fold (\<lambda>user orgs. orgs(User_ID user \<mapsto> v)) users m k =
     (if k \<in> User_ID ` set users then Some v else m k)"
  by (induction users arbitrary: m) auto

lemma convertGroup_members:
  "sdk_Group_Members (convertGroup roleByName g users) =
     map (\<lambda>u. convertUser roleByName u [Group_OrganizationID g]) users"
  by (simp add: convertGroup_def convertUsers_def fold_orgs Let_def)

text \<open>
  Claim C9. In every group response built by \<^verbatim>\<open>convertGroup\<close> there is one member per
  user of the roster, and the list of organization ids of each member is the one-element
  list of the organization id of the group, whatever organizations the user belongs to.
\<close>

theorem convertGroup_member_organizations:
  "length (sdk_Group_Members (convertGroup roleByName g users)) = length users \<and>
   (\<forall>m \<in> set (sdk_Group_Members (convertGroup roleByName g users)).
      sdk_OrganizationIDs m = [Group_OrganizationID g])"
  by (auto simp: convertGroup_members convertUser_def)

theorem convertGroup_member_organizations_witness:
  "map sdk_OrganizationIDs
     (sdk_Group_Members (convertGroup (\<lambda>n. \<lparr>rbac_Name = n, rbac_DisplayName = n\<rparr>) group_infra
        [sample_user 21 ''alice'', sample_user 22 ''bob'']))
   = [[sample_uuid 1], [sample_uuid 1]]"
proof -
  let ?ms = "sdk_Group_Members (convertGroup (\<lambda>n. \<lparr>rbac_Name = n, rbac_DisplayName = n\<rparr>)
               group_infra [sample_user 21 ''alice'', sample_user 22 ''bob''])"
  from convertGroup_member_organizations
         [of "\<lambda>n. \<lparr>rbac_Name = n, rbac_DisplayName = n\<rparr>" group_infra
             "[sample_user 21 ''alice'', sample_user 22 ''bob'']"]
  have len: "length ?ms = 2"
    and all: "\<forall>m \<in> set ?ms. sdk_OrganizationIDs m = [Group_OrganizationID group_infra]"
    by simp_all
  from len obtain a b where ms: "?ms = [a, b]"
    by (auto simp: length_Suc_conv numeral_2_eq_2)
  with all show ?thesis
    by (simp add: group_infra_def)
qed

section \<open>The sample rows\<close>

lemma GroupParam_with_group: "GroupParam (with_group g) = Return g"
  by (simp add: GroupParam_def with_group_def WithValue_def Value_def)

lemma AllUsersGroup_not_empty: "AllUsersGroup \<noteq> []"
  by (simp add: AllUsersGroup_def)

lemma sample_api_simps:
  "Database (sample_api allowed req) = mem_store"
  "Authorize (sample_api allowed req) r action g = allowed"
  "httpapi_Read (sample_api allowed req) r = Inr req"
  by (simp_all add: sample_api_def)

lemma sample_membership:
  "GetOrganizationMemberByUserID mem_store sample_state (sample_uuid 1, sample_uuid 21) =
     Inr (mem_member_row (sample_uuid 1, sample_uuid 21))"
  "GetOrganizationMemberByUserID mem_store sample_state (sample_uuid 1, sample_uuid 22) =
     Inr (mem_member_row (sample_uuid 1, sample_uuid 22))"
  "GetOrganizationMemberByUserID mem_store sample_state (sample_uuid 1, sample_uuid 23) =
     Inl ErrNoRows"
  by (simp_all add: mem_store_def sample_state_def sample_uuid_def)

lemma sample_parse_group:
  "parseUUID sample_mw (sample_request [(''group'', uuid_String u)]) ''group'' = Inr u"
  by (simp add: sample_mw_def URLParam_def sample_request_def uuid_Parse_String)

lemma sample_group_10: "GetGroupByID mem_store sample_state (sample_uuid 10) = Inr group_infra"
  by (simp add: mem_store_def sample_state_def mem_find_def group_infra_def)

lemma sample_org_1: "GetOrganizationByID mem_store sample_state (sample_uuid 1) = Inr org_acme"
  by (simp add: mem_store_def sample_state_def mem_find_def org_acme_def)

lemma sample_no_group_99: "GetGroupByID mem_store sample_state (sample_uuid 99) = Inl ErrNoRows"
  by (simp add: mem_store_def sample_state_def mem_find_def group_infra_def group_everyone_def
        sample_uuid_def)

lemma sample_no_platform:
  "GetGroupByOrgAndName mem_store sample_state (sample_uuid 1, ''platform'') = Inl ErrNoRows"
  by (simp add: mem_store_def sample_state_def mem_find_def group_infra_def group_everyone_def
        AllUsersGroup_def)

lemma show_organization_WithValue:
  "show_organization (r\<lparr>Context := WithValue c organizationParamContextKey (OrganizationValue org)\<rparr>) s =
     (Return (httpapi_Write 200 (PlainText (Organization_Name org))), s)"
  by (simp add: show_organization_def OrganizationParam_def WithValue_def Value_def)

section \<open>The member resolver\<close>

text \<open>
  Claim C1. When the member resolver succeeds (the user of the route is resolved, an
  organization is in the context, and the store has exactly one membership row for the
  two), the next handler gets the request with one value added to its context, under the
  key of the organization member: the membership row with the username and the avatar URL
  of the user. The rest of the request is as it was; and whatever the email, the password
  hash, the status and the roles of the resolved user are, the outcome is the same.
\<close>

theorem ExtractOrganizationMemberParam_view:
  assumes "extractUserContext mw (AsSystemRestricted mw (Context r)) db r s = Inr user"
    and "OrganizationParam r = Return organization"
    and "ExpectOne (OrganizationMembers db s (Organization_ID organization, User_v2_ID user)) = Inr row"
  shows "ExtractOrganizationMemberParam mw db next r s =
           next (r\<lparr>Context :=
                     (organizationMemberParamContextKey,
                      OrganizationMemberValue
                        \<lparr>OrganizationMember = Row_OrganizationMember row,
                         Username = User_v2_Username user,
                         AvatarURL = User_v2_AvatarURL user\<rparr>) # Context r\<rparr>) s
         \<and> ExtractOrganizationMemberParam
             (mw\<lparr>extractUserContext := \<lambda>ctx db r s.
                    Inr (user\<lparr>User_v2_Email := email, User_v2_HashedPassword := password,
                              User_v2_Status := st, User_v2_RBACRoles := roles\<rparr>)\<rparr>)
             db next r s =
           ExtractOrganizationMemberParam mw db next r s"
  using assms by (simp add: ExtractOrganizationMemberParam_def WithValue_def)

lemma member_request_organization: "OrganizationParam member_request = Return org_acme"
  by (simp add: OrganizationParam_def member_request_def WithValue_def Value_def)

lemma sample_member_row:
  "ExpectOne (OrganizationMembers mem_store sample_state (Organization_ID org_acme, User_v2_ID sample_user_v2)) =
     Inr \<lparr>Row_OrganizationMember = mem_member_row (sample_uuid 1, sample_uuid 21),
          Row_Username = [], Row_AvatarURL = [], Row_Email = []\<rparr>"
  by (simp add: ExpectOne_def mem_store_def sample_state_def org_acme_def sample_user_v2_def
        sample_uuid_def)

theorem ExtractOrganizationMemberParam_view_witness:
  "extractUserContext sample_mw (AsSystemRestricted sample_mw (Context member_request))
     mem_store member_request sample_state = Inr sample_user_v2 \<and>
   OrganizationParam member_request = Return org_acme \<and>
   ExpectOne (OrganizationMembers mem_store sample_state
                (Organization_ID org_acme, User_v2_ID sample_user_v2)) =
     Inr \<lparr>Row_OrganizationMember = mem_member_row (sample_uuid 1, sample_uuid 21),
          Row_Username = [], Row_AvatarURL = [], Row_Email = []\<rparr> \<and>
   ExtractOrganizationMemberParam sample_mw mem_store show_member member_request sample_state =
     (Return (httpapi_Write 200 (PlainText ''alice https://example.com/alice.png'')), sample_state) \<and>
   ExtractOrganizationMemberParam sample_mw mem_store show_context member_request sample_state =
     (Return (httpapi_Write 200 (PlainText ''mo'')), sample_state)"
proof -
  have u: "extractUserContext sample_mw (AsSystemRestricted sample_mw (Context member_request))
             mem_store member_request sample_state = Inr sample_user_v2"
    by (simp add: sample_mw_def)
  note v = ExtractOrganizationMemberParam_view [OF u member_request_organization sample_member_row]
  from v [of show_member]
       v [of show_context]
  show ?thesis
    using u member_request_organization sample_member_row
    by (simp add: show_member_def show_context_def OrganizationMemberParam_def Value_def
          sample_user_v2_def member_request_def WithValue_def)
qed

section \<open>The group resolver followed by the organization resolver\<close>

lemma URLParam_added:
  "URLParam (r\<lparr>Context := c, URLParams := ps @ [(k, v)]\<rparr>) k = v"
  by (simp add: URLParam_def)

lemma zero_group_10: "GetGroupByID mem_store zero_state (sample_uuid 10) = Inr group_zero"
  by (simp add: mem_store_def zero_state_def mem_find_def group_zero_def)

lemma zero_owner: "GetOrganizationByID mem_store zero_state uuid_Nil = Inr org_zero"
  by (simp add: mem_store_def zero_state_def mem_find_def org_zero_def)

lemma zero_default: "GetDefaultOrganization mem_store zero_state = Inr org_first"
  by (simp add: mem_store_def zero_state_def mem_find_def org_zero_def org_first_def)

text \<open>
  Claim C2, amended. Whenever the group resolver finds the group, the value it adds under
  the URL parameter \<^verbatim>\<open>organization\<close> is the identifier of the organization of the group,
  and it is the value a later stage reads there, whatever the caller supplied. When that
  identifier is not the all-zero one, the organization resolver chained after it looks the
  organization up by this identifier and by nothing else: it answers for the store's
  failure, or hands on the organization the store has under the identifier. When it is
  the all-zero one, the chained resolver asks the store for the default organization.
\<close>

theorem ExtractGroupParam_then_organization:
  assumes parsed: "parseUUID mw r ''group'' = Inr groupID"
    and found: "GetGroupByID db s groupID = Inr grp"
  shows "ExtractGroupParam mw db next r s =
           next (r\<lparr>Context := WithValue (Context r) groupParamContextKey (GroupValue grp),
                   URLParams := URLParams r @
                     [(''organization'', uuid_String (Group_OrganizationID grp))]\<rparr>) s
         \<and> URLParam (r\<lparr>Context := WithValue (Context r) groupParamContextKey (GroupValue grp),
                        URLParams := URLParams r @
                          [(''organization'', uuid_String (Group_OrganizationID grp))]\<rparr>)
             ''organization'' = uuid_String (Group_OrganizationID grp)
         \<and> (Group_OrganizationID grp \<noteq> uuid_Nil \<longrightarrow>
            ExtractGroupParam mw db (ExtractOrganizationParam mw db next) r s =
              (case GetOrganizationByID db s (Group_OrganizationID grp) of
                 Inl dbErr \<Rightarrow>
                   if Is404Error mw dbErr then (Return ResourceNotFound, s)
                   else (Return (httpapi_Write 500 (ResponseJSON
                          \<lparr>Message = Sprintf ''Internal error fetching organization %q.''
                                       [uuid_String (Group_OrganizationID grp)],
                           Detail = Some (ErrorText dbErr)\<rparr>)), s)
               | Inr organization \<Rightarrow>
                   next (r\<lparr>URLParams := URLParams r @
                             [(''organization'', uuid_String (Group_OrganizationID grp))],
                           Context :=
                             WithValue (WithValue (Context r) groupParamContextKey (GroupValue grp))
                               organizationParamContextKey (OrganizationValue organization)\<rparr>) s))
         \<and> (Group_OrganizationID grp = uuid_Nil \<longrightarrow>
            ExtractGroupParam mw db (ExtractOrganizationParam mw db next) r s =
              (case GetDefaultOrganization db s of
                 Inl dbErr \<Rightarrow>
                   if Is404Error mw dbErr then (Return ResourceNotFound, s)
                   else (Return (httpapi_Write 500 (ResponseJSON
                          \<lparr>Message = Sprintf ''Internal error fetching organization %q.''
                                       [uuid_String (Group_OrganizationID grp)],
                           Detail = Some (ErrorText dbErr)\<rparr>)), s)
               | Inr organization \<Rightarrow>
                   next (r\<lparr>URLParams := URLParams r @
                             [(''organization'', uuid_String (Group_OrganizationID grp))],
                           Context :=
                             WithValue (WithValue (Context r) groupParamContextKey (GroupValue grp))
                               organizationParamContextKey (OrganizationValue organization)\<rparr>) s))"
proof -
  have first: "\<And>next. ExtractGroupParam mw db next r s =
           next (r\<lparr>Context := WithValue (Context r) groupParamContextKey (GroupValue grp),
                   URLParams := URLParams r @
                     [(''organization'', uuid_String (Group_OrganizationID grp))]\<rparr>) s"
    using parsed found by (simp add: ExtractGroupParam_def URLParams_Add_def)
  have "uuid_String (Group_OrganizationID grp) \<noteq> uuid_String uuid_Nil"
    if "Group_OrganizationID grp \<noteq> uuid_Nil"
    using that by (simp add: uuid_String_inject)
  then show ?thesis
    by (simp add: first ExtractOrganizationParam_def URLParam_added uuid_String_not_empty
          uuid_String_not_default uuid_Parse_String Let_def split: sum.split)
qed

theorem ExtractGroupParam_then_organization_witness:
  "parseUUID sample_mw (sample_request [(''group'', uuid_String (sample_uuid 10))]) ''group'' =
     Inr (sample_uuid 10) \<and>
   GetGroupByID mem_store sample_state (sample_uuid 10) = Inr group_infra \<and>
   Group_OrganizationID group_infra \<noteq> uuid_Nil \<and>
   GetOrganizationByID mem_store sample_state (Group_OrganizationID group_infra) = Inr org_acme \<and>
   ExtractGroupParam sample_mw mem_store (ExtractOrganizationParam sample_mw mem_store show_organization)
     (sample_request [(''group'', uuid_String (sample_uuid 10))]) sample_state =
     (Return (httpapi_Write 200 (PlainText ''acme'')), sample_state) \<and>
   parseUUID sample_mw
     (sample_request [(''organization'', ''first''), (''group'', uuid_String (sample_uuid 10))])
     ''group'' = Inr (sample_uuid 10) \<and>
   ExtractGroupParam sample_mw mem_store (ExtractOrganizationParam sample_mw mem_store show_organization)
     (sample_request [(''organization'', ''first''), (''group'', uuid_String (sample_uuid 10))])
     sample_state =
     (Return (httpapi_Write 200 (PlainText ''acme'')), sample_state) \<and>
   GetGroupByID mem_store zero_state (sample_uuid 10) = Inr group_zero \<and>
   Group_OrganizationID group_zero = uuid_Nil \<and>
   GetDefaultOrganization mem_store zero_state = Inr org_first \<and>
   ExtractGroupParam sample_mw mem_store (ExtractOrganizationParam sample_mw mem_store show_organization)
     (sample_request [(''group'', uuid_String (sample_uuid 10))]) zero_state =
     (Return (httpapi_Write 200 (PlainText ''first'')), zero_state)"
proof -
  have z: "Group_OrganizationID group_infra \<noteq> uuid_Nil"
    by (simp add: group_infra_def sample_uuid_Nil)
  have o: "GetOrganizationByID mem_store sample_state (Group_OrganizationID group_infra) = Inr org_acme"
    by (simp add: group_infra_def sample_org_1)
  have p2: "parseUUID sample_mw
     (sample_request [(''organization'', ''first''), (''group'', uuid_String (sample_uuid 10))])
     ''group'' = Inr (sample_uuid 10)"
    by (simp add: sample_mw_def URLParam_def sample_request_def uuid_Parse_String)
  have n: "Group_OrganizationID group_zero = uuid_Nil"
    by (simp add: group_zero_def)
  note a = ExtractGroupParam_then_organization [OF sample_parse_group sample_group_10,
             of show_organization]
  note b = ExtractGroupParam_then_organization [OF p2 sample_group_10, of show_organization]
  note c = ExtractGroupParam_then_organization [OF sample_parse_group zero_group_10,
             of show_organization]
  from a [THEN conjunct2, THEN conjunct2, THEN conjunct1, THEN mp, OF z]
       b [THEN conjunct2, THEN conjunct2, THEN conjunct1, THEN mp, OF z]
       c [THEN conjunct2, THEN conjunct2, THEN conjunct2, THEN mp, OF n]
  show ?thesis
    using z o n p2 sample_parse_group sample_group_10 zero_group_10 zero_default
    by (simp add: show_organization_WithValue org_acme_def org_first_def)
qed

text \<open>
  Claim C2 as stated fails for a group whose organization carries the all-zero
  identifier: the organization resolver reads the printed identifier as the alias of the
  default organization. Here the group \<open>infra\<close> belongs to \<open>acme\<close>, and the chain resolves
  \<open>first\<close>.
\<close>

theorem ExtractGroupParam_zero_organization:
  "parseUUID sample_mw (sample_request [(''group'', uuid_String (sample_uuid 10))]) ''group'' =
     Inr (sample_uuid 10) \<and>
   GetGroupByID mem_store zero_state (sample_uuid 10) = Inr group_zero \<and>
   URLParams (sample_request [(''group'', uuid_String (sample_uuid 10))]) =
     [(''group'', uuid_String (sample_uuid 10))] \<and>
   GetOrganizationByID mem_store zero_state (Group_OrganizationID group_zero) = Inr org_zero \<and>
   Organization_Name org_zero = ''acme'' \<and>
   ExtractGroupParam sample_mw mem_store (ExtractOrganizationParam sample_mw mem_store show_organization)
     (sample_request [(''group'', uuid_String (sample_uuid 10))]) zero_state =
     (Return (httpapi_Write 200 (PlainText ''first'')), zero_state)"
proof -
  have o: "GetOrganizationByID mem_store zero_state (Group_OrganizationID group_zero) = Inr org_zero"
    by (simp add: group_zero_def zero_owner)
  have c: "ExtractGroupParam sample_mw mem_store
             (ExtractOrganizationParam sample_mw mem_store show_organization)
             (sample_request [(''group'', uuid_String (sample_uuid 10))]) zero_state =
           (Return (httpapi_Write 200 (PlainText ''first'')), zero_state)"
    by (simp add: ExtractGroupParam_def ExtractOrganizationParam_def sample_parse_group
          zero_group_10 URLParam_added URLParams_Add_def Let_def group_zero_def zero_default
          uuid_String_not_empty show_organization_WithValue org_first_def)
  show ?thesis
    using o c sample_parse_group zero_group_10
    by (simp add: sample_request_def org_zero_def)
qed

section \<open>The default organization\<close>

text \<open>
  Claim C5. When the URL parameter \<^verbatim>\<open>organization\<close> is the alias \<^verbatim>\<open>default\<close> or the
  printed all-zero identifier, the outcome of the organization resolver is decided by the
  default organization of the store alone: it hands on that organization, or answers for
  the failure of that query. The lookups by identifier and by name play no part: with any
  other two in their place the outcome is the same.
\<close>

theorem ExtractOrganizationParam_default:
  assumes "URLParam r ''organization'' = DefaultOrganization \<or>
           URLParam r ''organization'' = uuid_String uuid_Nil"
  shows "ExtractOrganizationParam mw db next r s =
           (case GetDefaultOrganization db s of
              Inl dbErr \<Rightarrow>
                if Is404Error mw dbErr then (Return ResourceNotFound, s)
                else (Return (httpapi_Write 500 (ResponseJSON
                       \<lparr>Message = Sprintf ''Internal error fetching organization %q.''
                                    [URLParam r ''organization''],
                        Detail = Some (ErrorText dbErr)\<rparr>)), s)
            | Inr organization \<Rightarrow>
                next (r\<lparr>Context := WithValue (Context r) organizationParamContextKey
                                      (OrganizationValue organization)\<rparr>) s)
         \<and> ExtractOrganizationParam mw
               (db\<lparr>GetOrganizationByID := byID, GetOrganizationByName := byName\<rparr>) next r s =
             ExtractOrganizationParam mw db next r s"
proof -
  from assms have "URLParam r ''organization'' \<noteq> []"
    by (auto simp: DefaultOrganization_def uuid_String_not_empty)
  with assms show ?thesis
    by (auto simp: ExtractOrganizationParam_def Let_def)
qed

theorem ExtractOrganizationParam_default_witness:
  "URLParam (sample_request [(''organization'', ''default'')]) ''organization'' = DefaultOrganization \<and>
   ExtractOrganizationParam sample_mw mem_store show_organization
     (sample_request [(''organization'', ''default'')]) sample_state =
     (Return (httpapi_Write 200 (PlainText ''first'')), sample_state) \<and>
   URLParam (sample_request [(''organization'', uuid_String uuid_Nil)]) ''organization'' = uuid_String uuid_Nil \<and>
   ExtractOrganizationParam sample_mw mem_store show_organization
     (sample_request [(''organization'', uuid_String uuid_Nil)]) sample_state =
     (Return (httpapi_Write 200 (PlainText ''first'')), sample_state)"
proof -
  have p1: "URLParam (sample_request [(''organization'', ''default'')]) ''organization'' = DefaultOrganization"
    by (simp add: URLParam_def sample_request_def DefaultOrganization_def)
  have p2: "URLParam (sample_request [(''organization'', uuid_String uuid_Nil)]) ''organization'' = uuid_String uuid_Nil"
    by (simp add: URLParam_def sample_request_def)
  have d: "GetDefaultOrganization mem_store sample_state = Inr org_first"
    by (simp add: mem_store_def sample_state_def mem_find_def org_acme_def org_first_def)
  have sh: "\<And>r. show_organization
              (r\<lparr>Context := WithValue (Context r) organizationParamContextKey (OrganizationValue org_first)\<rparr>)
              sample_state = (Return (httpapi_Write 200 (PlainText ''first'')), sample_state)"
    by (simp add: show_organization_def OrganizationParam_def WithValue_def Value_def org_first_def)
  from ExtractOrganizationParam_default [of "sample_request [(''organization'', ''default'')]"
         sample_mw mem_store show_organization sample_state, OF disjI1 [OF p1]]
       ExtractOrganizationParam_default [of "sample_request [(''organization'', uuid_String uuid_Nil)]"
         sample_mw mem_store show_organization sample_state, OF disjI2 [OF p2]]
  show ?thesis
    using p1 p2 by (simp add: d sh)
qed

section \<open>The loop over the user ids\<close>

lemma patchGroup_users_members:
  assumes "\<forall>p \<in> set pre. \<exists>u m. uuid_Parse p = Inr u \<and>
             GetOrganizationMemberByUserID (Database api) s (Group_OrganizationID grp, u) = Inr m"
  shows "patchGroup_users api grp (pre @ rest) s = patchGroup_users api grp rest s"
  using assms by (induction pre) (auto simp: uuid_Parse_MustParse)

lemma patchGroup_users_all_members:
  assumes "\<forall>p \<in> set ids. \<exists>u m. uuid_Parse p = Inr u \<and>
             GetOrganizationMemberByUserID (Database api) s (Group_OrganizationID grp, u) = Inr m"
  shows "patchGroup_users api grp ids s = Return None"
  using patchGroup_users_members [OF assms, of "[]"] by simp

lemma patchGroup_users_stranger:
  assumes "uuid_Parse uid = Inr userID"
    and "GetOrganizationMemberByUserID (Database api) s (Group_OrganizationID grp, userID) = Inl err"
    and "errors_Is_ErrNoRows err"
  shows "patchGroup_users api grp (uid # post) s =
           Return (Some (httpapi_Write 412 (ResponseJSON
             \<lparr>Message = Sprintf ''User %q must be a member of organization %q''
                          [uid, uuid_String (Group_ID grp)],
              Detail = None\<rparr>)))"
  using assms by (simp add: uuid_Parse_MustParse)

lemma patchGroup_users_rejects:
  assumes "uid \<in> set ids"
    and "uuid_Parse uid = Inr userID"
    and "GetOrganizationMemberByUserID (Database api) s (Group_OrganizationID grp, userID) = Inl err"
    and "errors_Is_ErrNoRows err"
  shows "\<exists>resp. patchGroup_users api grp ids s = Return (Some resp) \<and>
                status resp \<in> {400, 412, 500}"
  using assms
proof (induction ids)
  case Nil
  then show ?case by simp
next
  case (Cons a ids)
  show ?case
  proof (cases "uuid_Parse a")
    case (Inl e)
    then show ?thesis by (simp add: httpapi_Write_def)
  next
    case (Inr u)
    note parsed = this
    show ?thesis
    proof (cases "GetOrganizationMemberByUserID (Database api) s (Group_OrganizationID grp, u)")
      case (Inl e)
      with parsed show ?thesis
        by (simp add: uuid_Parse_MustParse httpapi_Write_def InternalServerError_def)
    next
      case (Inr m)
      with parsed Cons have "a \<noteq> uid" by auto
      with Cons have "\<exists>resp. patchGroup_users api grp ids s = Return (Some resp) \<and>
                        status resp \<in> {400, 412, 500}"
        by auto
      with parsed Inr show ?thesis
        by (simp add: uuid_Parse_MustParse)
    qed
  qed
qed

text \<open>
  Claim C4, amended. When a group update carries, among the added and removed ids, the
  identifier of a user who is no member of the organization of the group, the store is
  left as it was and the answer is one of 400, 404, 412 and 500: the transaction is not
  entered. The answer is the 412 of the membership check when the caller is authorized,
  the new name is not the reserved one, and every id before that one (added ids first) is
  the identifier of a member.
\<close>

theorem patchGroup_stranger:
  assumes ctx: "GroupParam r = Return grp"
    and body: "httpapi_Read api r = Inr req"
    and ids: "AddUsers req @ RemoveUsers req = pre @ uid # post"
    and parsed: "uuid_Parse uid = Inr userID"
    and lookup: "GetOrganizationMemberByUserID (Database api) s (Group_OrganizationID grp, userID) = Inl err"
    and norows: "errors_Is_ErrNoRows err"
  shows "snd (patchGroup api r s) = s \<and>
         (\<exists>resp. fst (patchGroup api r s) = Return resp \<and> status resp \<in> {400, 404, 412, 500}) \<and>
         (Authorize api r ActionUpdate grp \<and> Name req \<noteq> AllUsersGroup \<and>
          (\<forall>p \<in> set pre. \<exists>u m. uuid_Parse p = Inr u \<and>
             GetOrganizationMemberByUserID (Database api) s (Group_OrganizationID grp, u) = Inr m)
          \<longrightarrow> patchGroup api r s =
                (Return (httpapi_Write 412 (ResponseJSON
                   \<lparr>Message = Sprintf ''User %q must be a member of organization %q''
                                [uid, uuid_String (Group_ID grp)],
                    Detail = None\<rparr>)), s))"
proof -
  have "uid \<in> set (AddUsers req @ RemoveUsers req)"
    unfolding ids by simp
  from patchGroup_users_rejects [OF this parsed lookup norows]
  obtain resp where resp: "patchGroup_users api grp (AddUsers req @ RemoveUsers req) s = Return (Some resp)"
    and st: "status resp \<in> {400, 412, 500}"
    by blast
  have first: "snd (patchGroup api r s) = s"
    using ctx body resp by (simp add: patchGroup_def)
  have second: "\<exists>resp. fst (patchGroup api r s) = Return resp \<and> status resp \<in> {400, 404, 412, 500}"
    using ctx body resp st by (auto simp: patchGroup_def http_NotFound_def httpapi_Write_def)
  have third: "patchGroup api r s =
                (Return (httpapi_Write 412 (ResponseJSON
                   \<lparr>Message = Sprintf ''User %q must be a member of organization %q''
                                [uid, uuid_String (Group_ID grp)],
                    Detail = None\<rparr>)), s)"
    if auth: "Authorize api r ActionUpdate grp" and name: "Name req \<noteq> AllUsersGroup"
      and members: "\<forall>p \<in> set pre. \<exists>u m. uuid_Parse p = Inr u \<and>
             GetOrganizationMemberByUserID (Database api) s (Group_OrganizationID grp, u) = Inr m"
  proof -
    have "patchGroup_users api grp (AddUsers req @ RemoveUsers req) s =
            patchGroup_users api grp (uid # post) s"
      unfolding ids by (rule patchGroup_users_members [OF members])
    then show ?thesis
      using ctx body auth name patchGroup_users_stranger [OF parsed lookup norows, of post]
      by (simp add: patchGroup_def)
  qed
  from first second third show ?thesis by blast
qed

theorem patchGroup_stranger_witness:
  "GroupParam (with_group group_infra) = Return group_infra \<and>
   httpapi_Read (sample_api True req_member_then_stranger) (with_group group_infra) =
     Inr req_member_then_stranger \<and>
   AddUsers req_member_then_stranger @ RemoveUsers req_member_then_stranger =
     [uuid_String (sample_uuid 21)] @ uuid_String (sample_uuid 23) # [] \<and>
   uuid_Parse (uuid_String (sample_uuid 23)) = Inr (sample_uuid 23) \<and>
   GetOrganizationMemberByUserID (Database (sample_api True req_member_then_stranger)) sample_state
     (Group_OrganizationID group_infra, sample_uuid 23) = Inl ErrNoRows \<and>
   errors_Is_ErrNoRows ErrNoRows \<and>
   Authorize (sample_api True req_member_then_stranger) (with_group group_infra) ActionUpdate
     group_infra \<and>
   Name req_member_then_stranger \<noteq> AllUsersGroup \<and>
   uuid_Parse (uuid_String (sample_uuid 21)) = Inr (sample_uuid 21) \<and>
   GetOrganizationMemberByUserID (Database (sample_api True req_member_then_stranger)) sample_state
     (Group_OrganizationID group_infra, sample_uuid 21) =
     Inr (mem_member_row (sample_uuid 1, sample_uuid 21)) \<and>
   patchGroup (sample_api True req_member_then_stranger) (with_group group_infra) sample_state =
     (Return (httpapi_Write 412 (ResponseJSON
        \<lparr>Message = Sprintf ''User %q must be a member of organization %q''
                     [uuid_String (sample_uuid 23), uuid_String (sample_uuid 10)],
         Detail = None\<rparr>)), sample_state)"
proof -
  have b: "httpapi_Read (sample_api True req_member_then_stranger) (with_group group_infra) =
             Inr req_member_then_stranger"
    by (simp add: sample_api_simps)
  have i: "AddUsers req_member_then_stranger @ RemoveUsers req_member_then_stranger =
             [uuid_String (sample_uuid 21)] @ uuid_String (sample_uuid 23) # []"
    by (simp add: req_member_then_stranger_def)
  have l: "GetOrganizationMemberByUserID (Database (sample_api True req_member_then_stranger))
             sample_state (Group_OrganizationID group_infra, sample_uuid 23) = Inl ErrNoRows"
    by (simp add: sample_api_simps group_infra_def sample_membership)
  have m: "GetOrganizationMemberByUserID (Database (sample_api True req_member_then_stranger))
             sample_state (Group_OrganizationID group_infra, sample_uuid 21) =
             Inr (mem_member_row (sample_uuid 1, sample_uuid 21))"
    by (simp add: sample_api_simps group_infra_def sample_membership)
  have n: "Name req_member_then_stranger \<noteq> AllUsersGroup"
    by (simp add: req_member_then_stranger_def AllUsersGroup_def)
  have e: "errors_Is_ErrNoRows ErrNoRows"
    by simp
  from patchGroup_stranger [OF GroupParam_with_group b i uuid_Parse_String l e]
  show ?thesis
    using b i l m n by (simp add: sample_api_simps uuid_Parse_String GroupParam_with_group group_infra_def)
qed

lemma uuid_Parse_x: "uuid_Parse ''x'' = Inl (ErrorString ''invalid UUID length'')"
  by (simp add: uuid_Parse_def)

text \<open>
  Claim C4 as stated fails when an id that is checked earlier is rejected first: the
  request adds \<^verbatim>\<open>x\<close> and then a user who is no member, and the answer is 400.
\<close>

theorem patchGroup_malformed_before_stranger:
  "uuid_String (sample_uuid 23) \<in> set (AddUsers req_malformed_then_stranger) \<and>
   uuid_Parse (uuid_String (sample_uuid 23)) = Inr (sample_uuid 23) \<and>
   GetOrganizationMemberByUserID mem_store sample_state
     (Group_OrganizationID group_infra, sample_uuid 23) = Inl ErrNoRows \<and>
   patchGroup (sample_api True req_malformed_then_stranger) (with_group group_infra) sample_state =
     (Return (httpapi_Write 400 (ResponseJSON
        \<lparr>Message = Sprintf ''ID %q must be a valid user UUID.'' [''x''], Detail = None\<rparr>)),
      sample_state) \<and>
   status (httpapi_Write 400 (ResponseJSON
        \<lparr>Message = Sprintf ''ID %q must be a valid user UUID.'' [''x''], Detail = None\<rparr>)) \<noteq> 412"
  by (simp add: patchGroup_def GroupParam_with_group sample_api_simps
        req_malformed_then_stranger_def AllUsersGroup_def uuid_Parse_String uuid_Parse_x
        group_infra_def sample_membership httpapi_Write_def)

section \<open>The reserved name\<close>

text \<open>
  Claim C6, amended. A group update whose body asks for the reserved name of the group of
  all users is rejected before any change of the store: with 400 when the caller holds the
  update permission, which alone does not admit the new name, and with 404 when the caller
  does not, for the gate is asked before the body is read.
\<close>

theorem patchGroup_reserved:
  assumes ctx: "GroupParam r = Return grp"
    and body: "httpapi_Read api r = Inr req"
    and name: "Name req = AllUsersGroup"
  shows "(Authorize api r ActionUpdate grp \<longrightarrow>
            patchGroup api r s =
              (Return (httpapi_Write 400 (ResponseJSON
                 \<lparr>Message = Sprintf ''%q is a reserved group name!'' [AllUsersGroup],
                  Detail = None\<rparr>)), s)) \<and>
         (\<not> Authorize api r ActionUpdate grp \<longrightarrow>
            snd (patchGroup api r s) = s \<and>
            (\<exists>resp. fst (patchGroup api r s) = Return resp \<and> status resp = 404))"
  using assms by (simp add: patchGroup_def AllUsersGroup_not_empty http_NotFound_def)

theorem patchGroup_reserved_witness:
  "GroupParam (with_group group_infra) = Return group_infra \<and>
   httpapi_Read (sample_api True req_reserved) (with_group group_infra) = Inr req_reserved \<and>
   Name req_reserved = AllUsersGroup \<and>
   Authorize (sample_api True req_reserved) (with_group group_infra) ActionUpdate group_infra \<and>
   patchGroup (sample_api True req_reserved) (with_group group_infra) sample_state =
     (Return (httpapi_Write 400 (ResponseJSON
        \<lparr>Message = Sprintf ''%q is a reserved group name!'' [''Everyone''], Detail = None\<rparr>)),
      sample_state) \<and>
   \<not> Authorize (sample_api False req_reserved) (with_group group_infra) ActionUpdate group_infra \<and>
   snd (patchGroup (sample_api False req_reserved) (with_group group_infra) sample_state) =
     sample_state"
proof -
  have b: "\<And>allowed. httpapi_Read (sample_api allowed req_reserved) (with_group group_infra) =
             Inr req_reserved"
    by (simp add: sample_api_simps)
  have n: "Name req_reserved = AllUsersGroup"
    by (simp add: req_reserved_def)
  from patchGroup_reserved [OF GroupParam_with_group b n, of True sample_state]
       patchGroup_reserved [OF GroupParam_with_group b n, of False sample_state]
  show ?thesis
    using b n by (simp add: GroupParam_with_group AllUsersGroup_def sample_api_simps)
qed

text \<open>
  Claim C6 as stated fails for a caller without the update permission: the request asks
  for the reserved name and the answer has status 404, not 400.
\<close>

theorem patchGroup_reserved_denied:
  "Name req_reserved = AllUsersGroup \<and>
   httpapi_Read (sample_api False req_reserved) (with_group group_infra) = Inr req_reserved \<and>
   patchGroup (sample_api False req_reserved) (with_group group_infra) sample_state =
     (Return http_NotFound, sample_state) \<and>
   status http_NotFound = 404"
  by (simp add: patchGroup_def GroupParam_with_group sample_api_simps req_reserved_def
        http_NotFound_def)

text \<open>
  Claim C8, amended. A delete request for the reserved group of all users deletes
  nothing: the store is left as it was. The answer is 400 for a caller who holds the
  delete permission and the resource-not-found answer for one who does not.
\<close>

theorem deleteGroup_reserved:
  assumes "GroupParam r = Return grp"
    and "Group_Name grp = AllUsersGroup"
  shows "deleteGroup api r s =
           (Return (if Authorize api r ActionDelete grp
                    then httpapi_Write 400 (ResponseJSON
                           \<lparr>Message = Sprintf ''%q is a reserved group and cannot be deleted!''
                                        [AllUsersGroup],
                            Detail = None\<rparr>)
                    else ResourceNotFound), s)"
  using assms by (simp add: deleteGroup_def)

theorem deleteGroup_reserved_witness:
  "GroupParam (with_group group_everyone) = Return group_everyone \<and>
   Group_Name group_everyone = AllUsersGroup \<and>
   deleteGroup (sample_api True req_rename) (with_group group_everyone) sample_state =
     (Return (httpapi_Write 400 (ResponseJSON
        \<lparr>Message = Sprintf ''%q is a reserved group and cannot be deleted!'' [''Everyone''],
         Detail = None\<rparr>)), sample_state) \<and>
   deleteGroup (sample_api False req_rename) (with_group group_everyone) sample_state =
     (Return ResourceNotFound, sample_state)"
proof -
  have n: "Group_Name group_everyone = AllUsersGroup"
    by (simp add: group_everyone_def)
  from deleteGroup_reserved [OF GroupParam_with_group n, of "sample_api True req_rename" sample_state]
       deleteGroup_reserved [OF GroupParam_with_group n, of "sample_api False req_rename" sample_state]
  show ?thesis
    using n by (simp add: GroupParam_with_group sample_api_simps AllUsersGroup_def)
qed

text \<open>
  Claim C8 as stated fails for a caller without the delete permission: the answer is the
  resource-not-found answer, with status 404, and not the 400 of the reserved group.
\<close>

theorem deleteGroup_reserved_denied:
  "Group_Name group_everyone = AllUsersGroup \<and>
   deleteGroup (sample_api False \<lparr>AddUsers = [], RemoveUsers = [], Name = []\<rparr>)
     (with_group group_everyone) sample_state = (Return ResourceNotFound, sample_state) \<and>
   status ResourceNotFound = 404"
  by (simp add: deleteGroup_def GroupParam_with_group sample_api_def ResourceNotFound_def
        httpapi_Write_def group_everyone_def)

section \<open>The transaction\<close>

lemma uuid_MustParse_Return: "uuid_MustParse x = Return u \<Longrightarrow> uuid_Parse x = Inr u"
  by (simp add: uuid_MustParse_def split: sum.splits)

lemma patchGroup_insert_append:
  "patchGroup_insert tx grp pre s = (Return None, s') \<Longrightarrow>
   patchGroup_insert tx grp (pre @ rest) s = patchGroup_insert tx grp rest s'"
  by (induction pre arbitrary: s) (auto split: go.splits prod.splits option.splits)

lemma patchGroup_delete_append:
  "patchGroup_delete tx pre s = (Return None, s') \<Longrightarrow>
   patchGroup_delete tx (pre @ rest) s = patchGroup_delete tx rest s'"
  by (induction pre arbitrary: s) (auto split: go.splits prod.splits option.splits)

lemma patchGroup_insert_fails:
  assumes "patchGroup_insert tx grp pre s = (Return None, s2)"
    and "uuid_Parse uid = Inr userID"
    and "InsertGroupMember tx s2 (Group_ID grp, userID) = (Some e, s3)"
  shows "patchGroup_insert tx grp (pre @ uid # post) s =
           (Return (Some (Errorf ''insert group member %q: %w'' [uid] e)), s3)"
  using assms by (simp add: patchGroup_insert_append uuid_Parse_MustParse)

lemma patchGroup_delete_fails:
  assumes "patchGroup_delete tx pre s = (Return None, s2)"
    and "uuid_Parse uid = Inr userID"
    and "DeleteGroupMember tx s2 userID = (Some e, s3)"
  shows "patchGroup_delete tx (pre @ uid # post) s =
           (Return (Some (Errorf ''insert group member %q: %w'' [uid] e)), s3)"
  using assms by (simp add: patchGroup_delete_append uuid_Parse_MustParse)

lemma patchGroup_insert_error:
  assumes "patchGroup_insert tx grp ids s = (Return (Some err), s')"
  shows "\<exists>pre uid post userID s0 e. ids = pre @ uid # post \<and>
           patchGroup_insert tx grp pre s = (Return None, s0) \<and>
           uuid_Parse uid = Inr userID \<and>
           InsertGroupMember tx s0 (Group_ID grp, userID) = (Some e, s') \<and>
           err = Errorf ''insert group member %q: %w'' [uid] e"
  using assms
proof (induction ids arbitrary: s)
  case Nil
  then show ?case by simp
next
  case (Cons a ids)
  from Cons.prems obtain userID where m: "uuid_MustParse a = Return userID"
    by (auto split: go.splits)
  then have p: "uuid_Parse a = Inr userID"
    by (rule uuid_MustParse_Return)
  obtain res s1 where i: "InsertGroupMember tx s (Group_ID grp, userID) = (res, s1)"
    by (cases "InsertGroupMember tx s (Group_ID grp, userID)")
  show ?case
  proof (cases res)
    case None
    with Cons.prems m i have "patchGroup_insert tx grp ids s1 = (Return (Some err), s')"
      by simp
    from Cons.IH [OF this] obtain pre uid post u s0 e where
      "ids = pre @ uid # post" "patchGroup_insert tx grp pre s1 = (Return None, s0)"
      "uuid_Parse uid = Inr u" "InsertGroupMember tx s0 (Group_ID grp, u) = (Some e, s')"
      "err = Errorf ''insert group member %q: %w'' [uid] e"
      by blast
    with m i None have "a # ids = (a # pre) @ uid # post \<and>
           patchGroup_insert tx grp (a # pre) s = (Return None, s0) \<and>
           uuid_Parse uid = Inr u \<and>
           InsertGroupMember tx s0 (Group_ID grp, u) = (Some e, s') \<and>
           err = Errorf ''insert group member %q: %w'' [uid] e"
      by simp
    then show ?thesis by blast
  next
    case (Some e)
    with Cons.prems m i p have "a # ids = [] @ a # ids \<and>
           patchGroup_insert tx grp [] s = (Return None, s) \<and>
           uuid_Parse a = Inr userID \<and>
           InsertGroupMember tx s (Group_ID grp, userID) = (Some e, s') \<and>
           err = Errorf ''insert group member %q: %w'' [a] e"
      by simp
    then show ?thesis by blast
  qed
qed

lemma patchGroup_delete_error:
  assumes "patchGroup_delete tx ids s = (Return (Some err), s')"
  shows "\<exists>pre uid post userID s0 e. ids = pre @ uid # post \<and>
           patchGroup_delete tx pre s = (Return None, s0) \<and>
           uuid_Parse uid = Inr userID \<and>
           DeleteGroupMember tx s0 userID = (Some e, s') \<and>
           err = Errorf ''insert group member %q: %w'' [uid] e"
  using assms
proof (induction ids arbitrary: s)
  case Nil
  then show ?case by simp
next
  case (Cons a ids)
  from Cons.prems obtain userID where m: "uuid_MustParse a = Return userID"
    by (auto split: go.splits)
  then have p: "uuid_Parse a = Inr userID"
    by (rule uuid_MustParse_Return)
  obtain res s1 where i: "DeleteGroupMember tx s userID = (res, s1)"
    by (cases "DeleteGroupMember tx s userID")
  show ?case
  proof (cases res)
    case None
    with Cons.prems m i have "patchGroup_delete tx ids s1 = (Return (Some err), s')"
      by simp
    from Cons.IH [OF this] obtain pre uid post u s0 e where
      "ids = pre @ uid # post" "patchGroup_delete tx pre s1 = (Return None, s0)"
      "uuid_Parse uid = Inr u" "DeleteGroupMember tx s0 u = (Some e, s')"
      "err = Errorf ''insert group member %q: %w'' [uid] e"
      by blast
    with m i None have "a # ids = (a # pre) @ uid # post \<and>
           patchGroup_delete tx (a # pre) s = (Return None, s0) \<and>
           uuid_Parse uid = Inr u \<and>
           DeleteGroupMember tx s0 u = (Some e, s') \<and>
           err = Errorf ''insert group member %q: %w'' [uid] e"
      by simp
    then show ?thesis by blast
  next
    case (Some e)
    with Cons.prems m i p have "a # ids = [] @ a # ids \<and>
           patchGroup_delete tx [] s = (Return None, s) \<and>
           uuid_Parse a = Inr userID \<and>
           DeleteGroupMember tx s userID = (Some e, s') \<and>
           err = Errorf ''insert group member %q: %w'' [a] e"
      by simp
    then show ?thesis by blast
  qed
qed

lemma patchGroup_reaches_commit:
  assumes ctx: "GroupParam r = Return grp"
    and auth: "Authorize api r ActionUpdate grp"
    and body: "httpapi_Read api r = Inr req"
    and name: "Name req \<noteq> AllUsersGroup"
    and ids: "\<forall>p \<in> set (AddUsers req @ RemoveUsers req). \<exists>u m. uuid_Parse p = Inr u \<and>
             GetOrganizationMemberByUserID (Database api) s (Group_OrganizationID grp, u) = Inr m"
    and free: "Name req = [] \<or> isl (GetGroupByOrgAndName (Database api) s (Group_OrganizationID grp, Name req))"
  shows "patchGroup api r s = patchGroup_commit api req grp s"
  using ctx auth body name patchGroup_users_all_members [OF ids] free
  by (auto simp: patchGroup_def)

lemma patchGroup_commit_error:
  assumes "patchGroup_tx (Database api) req grp s = (Return (Inl err), s1)"
  shows "patchGroup_commit api req grp s =
           (Return (if IsUniqueViolation err then
                      httpapi_Write 412 (ResponseJSON
                        \<lparr>Message = Lit ''Cannot add the same user to a group twice!'',
                         Detail = Some (ErrorText err)\<rparr>)
                    else if errors_Is_ErrNoRows err then
                      httpapi_Write 412 (ResponseJSON
                        \<lparr>Message = Lit ''Failed to add or remove non-existent group member'',
                         Detail = Some (ErrorText err)\<rparr>)
                    else InternalServerError err), s)"
  using assms by (simp add: patchGroup_commit_def InTx_def)

lemma patchGroup_tx_update_fails:
  assumes "Name req \<noteq> []"
    and "UpdateGroupByID tx s (Group_ID grp, Name req) = (Inl e, s1)"
  shows "patchGroup_tx tx req grp s = (Return (Inl (Errorf ''update group by ID: %w'' [] e)), s1)"
  using assms by (simp add: patchGroup_tx_def)

lemma patchGroup_tx_insert_fails:
  assumes "(if Name req \<noteq> [] then UpdateGroupByID tx s (Group_ID grp, Name req)
            else (Inr grp, s)) = (Inr grp1, s1)"
    and "AddUsers req = pre @ uid # post"
    and "patchGroup_insert tx grp1 pre s1 = (Return None, s2)"
    and "uuid_Parse uid = Inr userID"
    and "InsertGroupMember tx s2 (Group_ID grp1, userID) = (Some e, s3)"
  shows "patchGroup_tx tx req grp s =
           (Return (Inl (Errorf ''insert group member %q: %w'' [uid] e)), s3)"
proof -
  have "patchGroup_insert tx grp1 (AddUsers req) s1 =
          (Return (Some (Errorf ''insert group member %q: %w'' [uid] e)), s3)"
    unfolding assms(2) by (rule patchGroup_insert_fails [OF assms(3-5)])
  with assms(1) show ?thesis
    by (auto simp: patchGroup_tx_def split: if_splits prod.splits sum.splits)
qed

lemma patchGroup_tx_delete_fails:
  assumes "(if Name req \<noteq> [] then UpdateGroupByID tx s (Group_ID grp, Name req)
            else (Inr grp, s)) = (Inr grp1, s1)"
    and "patchGroup_insert tx grp1 (AddUsers req) s1 = (Return None, s2)"
    and "RemoveUsers req = pre @ uid # post"
    and "patchGroup_delete tx pre s2 = (Return None, s3)"
    and "uuid_Parse uid = Inr userID"
    and "DeleteGroupMember tx s3 userID = (Some e, s4)"
  shows "patchGroup_tx tx req grp s =
           (Return (Inl (Errorf ''insert group member %q: %w'' [uid] e)), s4)"
proof -
  have "patchGroup_delete tx (RemoveUsers req) s2 =
          (Return (Some (Errorf ''insert group member %q: %w'' [uid] e)), s4)"
    unfolding assms(3) by (rule patchGroup_delete_fails [OF assms(4-6)])
  with assms(1,2) show ?thesis
    by (auto simp: patchGroup_tx_def split: if_splits prod.splits sum.splits)
qed

lemma patchGroup_tx_error_cases:
  assumes "patchGroup_tx tx req grp s = (Return (Inl err), s')"
  shows "(\<exists>e. Name req \<noteq> [] \<and>
              UpdateGroupByID tx s (Group_ID grp, Name req) = (Inl e, s') \<and>
              err = Errorf ''update group by ID: %w'' [] e)
       \<or> (\<exists>grp1 s1 pre uid post userID s2 e.
              (if Name req \<noteq> [] then UpdateGroupByID tx s (Group_ID grp, Name req)
               else (Inr grp, s)) = (Inr grp1, s1) \<and>
              AddUsers req = pre @ uid # post \<and>
              patchGroup_insert tx grp1 pre s1 = (Return None, s2) \<and>
              uuid_Parse uid = Inr userID \<and>
              InsertGroupMember tx s2 (Group_ID grp1, userID) = (Some e, s') \<and>
              err = Errorf ''insert group member %q: %w'' [uid] e)
       \<or> (\<exists>grp1 s1 s2 pre uid post userID s3 e.
              (if Name req \<noteq> [] then UpdateGroupByID tx s (Group_ID grp, Name req)
               else (Inr grp, s)) = (Inr grp1, s1) \<and>
              patchGroup_insert tx grp1 (AddUsers req) s1 = (Return None, s2) \<and>
              RemoveUsers req = pre @ uid # post \<and>
              patchGroup_delete tx pre s2 = (Return None, s3) \<and>
              uuid_Parse uid = Inr userID \<and>
              DeleteGroupMember tx s3 userID = (Some e, s') \<and>
              err = Errorf ''insert group member %q: %w'' [uid] e)"
proof -
  obtain renamed s1 where rn:
    "(if Name req \<noteq> [] then UpdateGroupByID tx s (Group_ID grp, Name req)
      else (Inr grp, s)) = (renamed, s1)"
    by (cases "if Name req \<noteq> [] then UpdateGroupByID tx s (Group_ID grp, Name req)
               else (Inr grp, s)")
  show ?thesis
  proof (cases renamed)
    case (Inl e)
    with rn assms have "Name req \<noteq> [] \<and>
        UpdateGroupByID tx s (Group_ID grp, Name req) = (Inl e, s') \<and>
        err = Errorf ''update group by ID: %w'' [] e"
      by (auto simp: patchGroup_tx_def split: if_splits prod.splits sum.splits)
    then show ?thesis by blast
  next
    case (Inr grp1)
    note rn1 = rn [unfolded Inr]
    obtain ri s2 where ins: "patchGroup_insert tx grp1 (AddUsers req) s1 = (ri, s2)"
      by (cases "patchGroup_insert tx grp1 (AddUsers req) s1")
    have tx: "patchGroup_tx tx req grp s =
                (case patchGroup_insert tx grp1 (AddUsers req) s1 of
                   (Panic p, s2) \<Rightarrow> (Panic p, s2)
                 | (Return (Some err), s2) \<Rightarrow> (Return (Inl err), s2)
                 | (Return None, s2) \<Rightarrow>
                     (case patchGroup_delete tx (RemoveUsers req) s2 of
                        (Panic p, s3) \<Rightarrow> (Panic p, s3)
                      | (Return (Some err), s3) \<Rightarrow> (Return (Inl err), s3)
                      | (Return None, s3) \<Rightarrow> (Return (Inr grp1), s3)))"
      using rn1 by (auto simp: patchGroup_tx_def split: if_splits prod.splits sum.splits)
    show ?thesis
    proof (cases ri)
      case (Panic p)
      with assms tx ins show ?thesis by simp
    next
      case (Return ro)
      show ?thesis
      proof (cases ro)
        case (Some e0)
        with assms tx ins Return
        have "patchGroup_insert tx grp1 (AddUsers req) s1 = (Return (Some err), s')"
          by simp
        from patchGroup_insert_error [OF this] rn1 show ?thesis
          by blast
      next
        case None
        with ins Return have ins0: "patchGroup_insert tx grp1 (AddUsers req) s1 = (Return None, s2)"
          by simp
        with assms tx
        have "patchGroup_delete tx (RemoveUsers req) s2 = (Return (Some err), s')"
          by (auto split: prod.splits go.splits option.splits)
        from patchGroup_delete_error [OF this] rn1 ins0 show ?thesis
          by blast
      qed
    qed
  qed
qed

text \<open>
  Claim C3. Take a group update that reaches the transaction. When the store refuses the
  insertion of an added member after the insertions before it went well, or the deletion
  of a removed member after the insertions and the deletions before it went well, or the
  update of the name, the answer is 412 if the error of the store is a uniqueness
  violation, 412 if it is the absence of a row, and 500 otherwise; and the store is left
  in the state of before the request. Whenever the function run in the transaction
  returns an error, the store is in that state, so that the row of the group and its
  roster read as before. (By \<open>patchGroup_tx_error_cases\<close> these three are the only errors
  that function returns.)
\<close>

theorem patchGroup_aborts_whole:
  assumes ctx: "GroupParam r = Return grp"
    and auth: "Authorize api r ActionUpdate grp"
    and body: "httpapi_Read api r = Inr req"
    and name: "Name req \<noteq> AllUsersGroup"
    and ids: "\<forall>p \<in> set (AddUsers req @ RemoveUsers req). \<exists>u m. uuid_Parse p = Inr u \<and>
             GetOrganizationMemberByUserID (Database api) s (Group_OrganizationID grp, u) = Inr m"
    and free: "Name req = [] \<or> isl (GetGroupByOrgAndName (Database api) s (Group_OrganizationID grp, Name req))"
  shows "((if Name req \<noteq> [] then UpdateGroupByID (Database api) s (Group_ID grp, Name req)
           else (Inr grp, s)) = (Inr grp1, s1) \<and>
          AddUsers req = pre @ uid # post \<and>
          patchGroup_insert (Database api) grp1 pre s1 = (Return None, s2) \<and>
          uuid_Parse uid = Inr userID \<and>
          InsertGroupMember (Database api) s2 (Group_ID grp1, userID) = (Some e, s3) \<longrightarrow>
          patchGroup api r s =
            (Return (if IsUniqueViolation e then
                       httpapi_Write 412 (ResponseJSON
                         \<lparr>Message = Lit ''Cannot add the same user to a group twice!'',
                          Detail = Some (ErrorText
                            (Errorf ''insert group member %q: %w'' [uid] e))\<rparr>)
                     else if errors_Is_ErrNoRows e then
                       httpapi_Write 412 (ResponseJSON
                         \<lparr>Message = Lit ''Failed to add or remove non-existent group member'',
                          Detail = Some (ErrorText
                            (Errorf ''insert group member %q: %w'' [uid] e))\<rparr>)
                     else InternalServerError (Errorf ''insert group member %q: %w'' [uid] e)), s))
       \<and> ((if Name req \<noteq> [] then UpdateGroupByID (Database api) s (Group_ID grp, Name req)
           else (Inr grp, s)) = (Inr grp1, s1) \<and>
          patchGroup_insert (Database api) grp1 (AddUsers req) s1 = (Return None, s2) \<and>
          RemoveUsers req = pre @ uid # post \<and>
          patchGroup_delete (Database api) pre s2 = (Return None, s3) \<and>
          uuid_Parse uid = Inr userID \<and>
          DeleteGroupMember (Database api) s3 userID = (Some e, s4) \<longrightarrow>
          patchGroup api r s =
            (Return (if IsUniqueViolation e then
                       httpapi_Write 412 (ResponseJSON
                         \<lparr>Message = Lit ''Cannot add the same user to a group twice!'',
                          Detail = Some (ErrorText
                            (Errorf ''insert group member %q: %w'' [uid] e))\<rparr>)
                     else if errors_Is_ErrNoRows e then
                       httpapi_Write 412 (ResponseJSON
                         \<lparr>Message = Lit ''Failed to add or remove non-existent group member'',
                          Detail = Some (ErrorText
                            (Errorf ''insert group member %q: %w'' [uid] e))\<rparr>)
                     else InternalServerError (Errorf ''insert group member %q: %w'' [uid] e)), s))
       \<and> (Name req \<noteq> [] \<and>
          UpdateGroupByID (Database api) s (Group_ID grp, Name req) = (Inl e, s1) \<longrightarrow>
          patchGroup api r s =
            (Return (if IsUniqueViolation e then
                       httpapi_Write 412 (ResponseJSON
                         \<lparr>Message = Lit ''Cannot add the same user to a group twice!'',
                          Detail = Some (ErrorText (Errorf ''update group by ID: %w'' [] e))\<rparr>)
                     else if errors_Is_ErrNoRows e then
                       httpapi_Write 412 (ResponseJSON
                         \<lparr>Message = Lit ''Failed to add or remove non-existent group member'',
                          Detail = Some (ErrorText (Errorf ''update group by ID: %w'' [] e))\<rparr>)
                     else InternalServerError (Errorf ''update group by ID: %w'' [] e)), s))
       \<and> (patchGroup_tx (Database api) req grp s = (Return (Inl err), sx) \<longrightarrow>
          snd (patchGroup api r s) = s \<and>
          GetGroupByID (Database api) (snd (patchGroup api r s)) (Group_ID grp) =
            GetGroupByID (Database api) s (Group_ID grp) \<and>
          GetGroupMembers (Database api) (snd (patchGroup api r s)) (Group_ID grp) =
            GetGroupMembers (Database api) s (Group_ID grp))"
proof -
  note commit = patchGroup_reaches_commit [OF ctx auth body name ids free]
  show ?thesis
  proof (intro conjI impI)
    assume "(if Name req \<noteq> [] then UpdateGroupByID (Database api) s (Group_ID grp, Name req)
           else (Inr grp, s)) = (Inr grp1, s1) \<and>
          AddUsers req = pre @ uid # post \<and>
          patchGroup_insert (Database api) grp1 pre s1 = (Return None, s2) \<and>
          uuid_Parse uid = Inr userID \<and>
          InsertGroupMember (Database api) s2 (Group_ID grp1, userID) = (Some e, s3)"
    then have "patchGroup_tx (Database api) req grp s =
                 (Return (Inl (Errorf ''insert group member %q: %w'' [uid] e)), s3)"
      by (blast intro: patchGroup_tx_insert_fails)
    from patchGroup_commit_error [OF this]
    show "patchGroup api r s =
            (Return (if IsUniqueViolation e then
                       httpapi_Write 412 (ResponseJSON
                         \<lparr>Message = Lit ''Cannot add the same user to a group twice!'',
                          Detail = Some (ErrorText
                            (Errorf ''insert group member %q: %w'' [uid] e))\<rparr>)
                     else if errors_Is_ErrNoRows e then
                       httpapi_Write 412 (ResponseJSON
                         \<lparr>Message = Lit ''Failed to add or remove non-existent group member'',
                          Detail = Some (ErrorText
                            (Errorf ''insert group member %q: %w'' [uid] e))\<rparr>)
                     else InternalServerError (Errorf ''insert group member %q: %w'' [uid] e)), s)"
      by (simp add: commit)
  next
    assume "(if Name req \<noteq> [] then UpdateGroupByID (Database api) s (Group_ID grp, Name req)
           else (Inr grp, s)) = (Inr grp1, s1) \<and>
          patchGroup_insert (Database api) grp1 (AddUsers req) s1 = (Return None, s2) \<and>
          RemoveUsers req = pre @ uid # post \<and>
          patchGroup_delete (Database api) pre s2 = (Return None, s3) \<and>
          uuid_Parse uid = Inr userID \<and>
          DeleteGroupMember (Database api) s3 userID = (Some e, s4)"
    then have "patchGroup_tx (Database api) req grp s =
                 (Return (Inl (Errorf ''insert group member %q: %w'' [uid] e)), s4)"
      by (blast intro: patchGroup_tx_delete_fails)
    from patchGroup_commit_error [OF this]
    show "patchGroup api r s =
            (Return (if IsUniqueViolation e then
                       httpapi_Write 412 (ResponseJSON
                         \<lparr>Message = Lit ''Cannot add the same user to a group twice!'',
                          Detail = Some (ErrorText
                            (Errorf ''insert group member %q: %w'' [uid] e))\<rparr>)
                     else if errors_Is_ErrNoRows e then
                       httpapi_Write 412 (ResponseJSON
                         \<lparr>Message = Lit ''Failed to add or remove non-existent group member'',
                          Detail = Some (ErrorText
                            (Errorf ''insert group member %q: %w'' [uid] e))\<rparr>)
                     else InternalServerError (Errorf ''insert group member %q: %w'' [uid] e)), s)"
      by (simp add: commit)
  next
    assume "Name req \<noteq> [] \<and>
          UpdateGroupByID (Database api) s (Group_ID grp, Name req) = (Inl e, s1)"
    then have "patchGroup_tx (Database api) req grp s =
                 (Return (Inl (Errorf ''update group by ID: %w'' [] e)), s1)"
      by (blast intro: patchGroup_tx_update_fails)
    from patchGroup_commit_error [OF this]
    show "patchGroup api r s =
            (Return (if IsUniqueViolation e then
                       httpapi_Write 412 (ResponseJSON
                         \<lparr>Message = Lit ''Cannot add the same user to a group twice!'',
                          Detail = Some (ErrorText (Errorf ''update group by ID: %w'' [] e))\<rparr>)
                     else if errors_Is_ErrNoRows e then
                       httpapi_Write 412 (ResponseJSON
                         \<lparr>Message = Lit ''Failed to add or remove non-existent group member'',
                          Detail = Some (ErrorText (Errorf ''update group by ID: %w'' [] e))\<rparr>)
                     else InternalServerError (Errorf ''update group by ID: %w'' [] e)), s)"
      by (simp add: commit)
  next
    assume f: "patchGroup_tx (Database api) req grp s = (Return (Inl err), sx)"
    from patchGroup_commit_error [OF f]
    show st: "snd (patchGroup api r s) = s"
      by (simp add: commit)
    then show "GetGroupByID (Database api) (snd (patchGroup api r s)) (Group_ID grp) =
            GetGroupByID (Database api) s (Group_ID grp)"
      and "GetGroupMembers (Database api) (snd (patchGroup api r s)) (Group_ID grp) =
            GetGroupMembers (Database api) s (Group_ID grp)"
      by simp_all
  qed
qed

lemma sample_insert_21:
  "patchGroup_insert mem_store group_infra [uuid_String (sample_uuid 21)] sample_state =
     (Return None, sample_state\<lparr>mem_group_members :=
        [(sample_uuid 10, sample_uuid 22), (sample_uuid 10, sample_uuid 21)]\<rparr>)"
  by (simp add: uuid_MustParse_String mem_store_def sample_state_def group_infra_def
        sample_uuid_def)

lemma sample_insert_22_collides:
  "InsertGroupMember mem_store
     (sample_state\<lparr>mem_group_members :=
        [(sample_uuid 10, sample_uuid 22), (sample_uuid 10, sample_uuid 21)]\<rparr>)
     (Group_ID group_infra, sample_uuid 22) =
     (Some (PqError ''unique_violation'' ''duplicate key value''),
      sample_state\<lparr>mem_group_members :=
        [(sample_uuid 10, sample_uuid 22), (sample_uuid 10, sample_uuid 21)]\<rparr>)"
  by (simp add: mem_store_def sample_state_def group_infra_def)

lemma sample_rename_platform:
  "UpdateGroupByID mem_store sample_state (Group_ID group_infra, ''platform'') =
     (Inr (group_infra\<lparr>Group_Name := ''platform''\<rparr>),
      sample_state\<lparr>mem_groups := [group_infra\<lparr>Group_Name := ''platform''\<rparr>, group_everyone]\<rparr>)"
  by (simp add: mem_store_def sample_state_def group_infra_def group_everyone_def sample_uuid_def)

lemma sample_delete_21_misses:
  "DeleteGroupMember mem_store
     (sample_state\<lparr>mem_groups := [group_infra\<lparr>Group_Name := ''platform''\<rparr>, group_everyone]\<rparr>)
     (sample_uuid 21) =
     (Some ErrNoRows,
      sample_state\<lparr>mem_groups := [group_infra\<lparr>Group_Name := ''platform''\<rparr>, group_everyone]\<rparr>)"
  by (simp add: mem_store_def sample_state_def sample_uuid_def)

theorem patchGroup_aborts_whole_witness:
  "AddUsers req_add_two = [uuid_String (sample_uuid 21)] @ uuid_String (sample_uuid 22) # [] \<and>
   RemoveUsers req_add_two = [] \<and> Name req_add_two = [] \<and>
   GetOrganizationMemberByUserID mem_store sample_state (sample_uuid 1, sample_uuid 21) =
     Inr (mem_member_row (sample_uuid 1, sample_uuid 21)) \<and>
   GetOrganizationMemberByUserID mem_store sample_state (sample_uuid 1, sample_uuid 22) =
     Inr (mem_member_row (sample_uuid 1, sample_uuid 22)) \<and>
   patchGroup_insert mem_store group_infra [uuid_String (sample_uuid 21)] sample_state =
     (Return None, sample_state\<lparr>mem_group_members :=
        [(sample_uuid 10, sample_uuid 22), (sample_uuid 10, sample_uuid 21)]\<rparr>) \<and>
   InsertGroupMember mem_store
     (sample_state\<lparr>mem_group_members :=
        [(sample_uuid 10, sample_uuid 22), (sample_uuid 10, sample_uuid 21)]\<rparr>)
     (Group_ID group_infra, sample_uuid 22) =
     (Some (PqError ''unique_violation'' ''duplicate key value''),
      sample_state\<lparr>mem_group_members :=
        [(sample_uuid 10, sample_uuid 22), (sample_uuid 10, sample_uuid 21)]\<rparr>) \<and>
   patchGroup (sample_api True req_add_two) (with_group group_infra) sample_state =
     (Return (httpapi_Write 412 (ResponseJSON
        \<lparr>Message = Lit ''Cannot add the same user to a group twice!'',
         Detail = Some (ErrorText
           (Errorf ''insert group member %q: %w'' [uuid_String (sample_uuid 22)]
              (PqError ''unique_violation'' ''duplicate key value'')))\<rparr>)),
      sample_state) \<and>
   AddUsers req_rename_remove = [] \<and>
   RemoveUsers req_rename_remove = [] @ uuid_String (sample_uuid 21) # [] \<and>
   Name req_rename_remove = ''platform'' \<and>
   GetGroupByOrgAndName mem_store sample_state (sample_uuid 1, ''platform'') = Inl ErrNoRows \<and>
   UpdateGroupByID mem_store sample_state (Group_ID group_infra, ''platform'') =
     (Inr (group_infra\<lparr>Group_Name := ''platform''\<rparr>),
      sample_state\<lparr>mem_groups := [group_infra\<lparr>Group_Name := ''platform''\<rparr>, group_everyone]\<rparr>) \<and>
   DeleteGroupMember mem_store
     (sample_state\<lparr>mem_groups := [group_infra\<lparr>Group_Name := ''platform''\<rparr>, group_everyone]\<rparr>)
     (sample_uuid 21) =
     (Some ErrNoRows,
      sample_state\<lparr>mem_groups := [group_infra\<lparr>Group_Name := ''platform''\<rparr>, group_everyone]\<rparr>) \<and>
   patchGroup (sample_api True req_rename_remove) (with_group group_infra) sample_state =
     (Return (httpapi_Write 412 (ResponseJSON
        \<lparr>Message = Lit ''Failed to add or remove non-existent group member'',
         Detail = Some (ErrorText
           (Errorf ''insert group member %q: %w'' [uuid_String (sample_uuid 21)] ErrNoRows))\<rparr>)),
      sample_state)"
proof -
  let ?api1 = "sample_api True req_add_two" and ?api2 = "sample_api True req_rename_remove"
  let ?s2 = "sample_state\<lparr>mem_group_members :=
        [(sample_uuid 10, sample_uuid 22), (sample_uuid 10, sample_uuid 21)]\<rparr>"
  let ?g1 = "group_infra\<lparr>Group_Name := ''platform''\<rparr>"
  let ?s1 = "sample_state\<lparr>mem_groups := [?g1, group_everyone]\<rparr>"
  have a1: "Authorize ?api1 (with_group group_infra) ActionUpdate group_infra"
    and a2: "Authorize ?api2 (with_group group_infra) ActionUpdate group_infra"
    by (simp_all add: sample_api_simps)
  have b1: "httpapi_Read ?api1 (with_group group_infra) = Inr req_add_two"
    and b2: "httpapi_Read ?api2 (with_group group_infra) = Inr req_rename_remove"
    by (simp_all add: sample_api_simps)
  have n1: "Name req_add_two \<noteq> AllUsersGroup"
    and n2: "Name req_rename_remove \<noteq> AllUsersGroup"
    by (simp_all add: req_add_two_def req_rename_remove_def AllUsersGroup_def)
  have u1: "\<forall>p \<in> set (AddUsers req_add_two @ RemoveUsers req_add_two). \<exists>u m.
              uuid_Parse p = Inr u \<and>
              GetOrganizationMemberByUserID (Database ?api1) sample_state
                (Group_OrganizationID group_infra, u) = Inr m"
    and u2: "\<forall>p \<in> set (AddUsers req_rename_remove @ RemoveUsers req_rename_remove). \<exists>u m.
              uuid_Parse p = Inr u \<and>
              GetOrganizationMemberByUserID (Database ?api2) sample_state
                (Group_OrganizationID group_infra, u) = Inr m"
    by (simp_all add: req_add_two_def req_rename_remove_def uuid_Parse_String
          sample_api_simps group_infra_def sample_membership)
  have f1: "Name req_add_two = [] \<or>
            isl (GetGroupByOrgAndName (Database ?api1) sample_state
                   (Group_OrganizationID group_infra, Name req_add_two))"
    by (simp add: req_add_two_def)
  have f2: "Name req_rename_remove = [] \<or>
            isl (GetGroupByOrgAndName (Database ?api2) sample_state
                   (Group_OrganizationID group_infra, Name req_rename_remove))"
    by (simp add: req_rename_remove_def sample_api_simps group_infra_def sample_no_platform)
  have h1: "(if Name req_add_two \<noteq> []
             then UpdateGroupByID (Database ?api1) sample_state (Group_ID group_infra, Name req_add_two)
             else (Inr group_infra, sample_state)) = (Inr group_infra, sample_state) \<and>
          AddUsers req_add_two = [uuid_String (sample_uuid 21)] @ uuid_String (sample_uuid 22) # [] \<and>
          patchGroup_insert (Database ?api1) group_infra [uuid_String (sample_uuid 21)] sample_state =
            (Return None, ?s2) \<and>
          uuid_Parse (uuid_String (sample_uuid 22)) = Inr (sample_uuid 22) \<and>
          InsertGroupMember (Database ?api1) ?s2 (Group_ID group_infra, sample_uuid 22) =
            (Some (PqError ''unique_violation'' ''duplicate key value''), ?s2)"
    by (simp add: sample_api_simps sample_insert_21 sample_insert_22_collides uuid_Parse_String
          req_add_two_def del: patchGroup_insert.simps)
  have h2: "(if Name req_rename_remove \<noteq> []
             then UpdateGroupByID (Database ?api2) sample_state
                    (Group_ID group_infra, Name req_rename_remove)
             else (Inr group_infra, sample_state)) = (Inr ?g1, ?s1) \<and>
          patchGroup_insert (Database ?api2) ?g1 (AddUsers req_rename_remove) ?s1 =
            (Return None, ?s1) \<and>
          RemoveUsers req_rename_remove = [] @ uuid_String (sample_uuid 21) # [] \<and>
          patchGroup_delete (Database ?api2) [] ?s1 = (Return None, ?s1) \<and>
          uuid_Parse (uuid_String (sample_uuid 21)) = Inr (sample_uuid 21) \<and>
          DeleteGroupMember (Database ?api2) ?s1 (sample_uuid 21) = (Some ErrNoRows, ?s1)"
    by (simp add: sample_api_simps sample_rename_platform sample_delete_21_misses
          uuid_Parse_String req_rename_remove_def)
  note t1 = patchGroup_aborts_whole [OF GroupParam_with_group a1 b1 n1 u1 f1]
  note t2 = patchGroup_aborts_whole [OF GroupParam_with_group a2 b2 n2 u2 f2]
  from t1 [THEN conjunct1, THEN mp, OF h1]
       t2 [THEN conjunct2, THEN conjunct1, THEN mp, OF h2]
  show ?thesis
    by (simp add: req_add_two_def req_rename_remove_def sample_membership sample_insert_21
          sample_insert_22_collides sample_rename_platform sample_delete_21_misses
          sample_no_platform del: patchGroup_insert.simps)
qed

section \<open>The lookup of the new name\<close>

text \<open>
  Claim C10. A group update that asks for a new name and passes the checks before the
  lookup of that name is answered with 409 exactly when the lookup finds a group. When
  the lookup returns an error, whichever it is, the handler goes on to the transaction.
\<close>

theorem patchGroup_name_lookup:
  assumes ctx: "GroupParam r = Return grp"
    and auth: "Authorize api r ActionUpdate grp"
    and body: "httpapi_Read api r = Inr req"
    and rename: "Name req \<noteq> []"
    and name: "Name req \<noteq> AllUsersGroup"
    and ids: "\<forall>p \<in> set (AddUsers req @ RemoveUsers req). \<exists>u m. uuid_Parse p = Inr u \<and>
             GetOrganizationMemberByUserID (Database api) s (Group_OrganizationID grp, u) = Inr m"
  shows "patchGroup api r s =
           (case GetGroupByOrgAndName (Database api) s (Group_OrganizationID grp, Name req) of
              Inr found \<Rightarrow>
                (Return (httpapi_Write 409 (ResponseJSON
                   \<lparr>Message = Sprintf ''A group with name %q already exists.'' [Name req],
                    Detail = None\<rparr>)), s)
            | Inl err \<Rightarrow> patchGroup_commit api req grp s)"
  using ctx auth body rename name patchGroup_users_all_members [OF ids]
  by (simp add: patchGroup_def split: sum.split)

lemma broken_lookup_api_simps:
  "Authorize (broken_lookup_api req) r action g"
  "httpapi_Read (broken_lookup_api req) r = Inr req"
  "GetGroupByOrgAndName (Database (broken_lookup_api req)) s p = Inl (ErrorString ''connection reset'')"
  "RoleByName (broken_lookup_api req) = (\<lambda>n. \<lparr>rbac_Name = n, rbac_DisplayName = n\<rparr>)"
  by (simp_all add: broken_lookup_api_def sample_api_def)

lemma broken_lookup_commit:
  "patchGroup_commit (broken_lookup_api req_rename) req_rename group_infra sample_state =
     (Return (httpapi_Write 200 (GroupJSON
        \<lparr>sdk_Group_ID = sample_uuid 10, sdk_Group_Name = ''platform'',
         sdk_Group_OrganizationID = sample_uuid 1,
         sdk_Group_Members = [convertUser (\<lambda>n. \<lparr>rbac_Name = n, rbac_DisplayName = n\<rparr>)
                                (sample_user 22 ''bob'') [sample_uuid 1]]\<rparr>)),
      sample_state\<lparr>mem_groups := [group_infra\<lparr>Group_Name := ''platform''\<rparr>, group_everyone]\<rparr>)"
  by (simp add: patchGroup_commit_def InTx_def patchGroup_tx_def req_rename_def
        broken_lookup_api_def sample_api_def mem_store_def sample_state_def group_infra_def
        group_everyone_def sample_uuid_def convertGroup_def convertUsers_def sample_user_def)

theorem patchGroup_name_lookup_witness:
  "GroupParam (with_group group_infra) = Return group_infra \<and>
   Authorize (broken_lookup_api req_rename) (with_group group_infra) ActionUpdate group_infra \<and>
   httpapi_Read (broken_lookup_api req_rename) (with_group group_infra) = Inr req_rename \<and>
   Name req_rename \<noteq> [] \<and> Name req_rename \<noteq> AllUsersGroup \<and>
   AddUsers req_rename @ RemoveUsers req_rename = [] \<and>
   GetGroupByOrgAndName (Database (broken_lookup_api req_rename)) sample_state
     (Group_OrganizationID group_infra, Name req_rename) = Inl (ErrorString ''connection reset'') \<and>
   patchGroup (broken_lookup_api req_rename) (with_group group_infra) sample_state =
     (Return (httpapi_Write 200 (GroupJSON
        \<lparr>sdk_Group_ID = sample_uuid 10, sdk_Group_Name = ''platform'',
         sdk_Group_OrganizationID = sample_uuid 1,
         sdk_Group_Members = [convertUser (\<lambda>n. \<lparr>rbac_Name = n, rbac_DisplayName = n\<rparr>)
                                (sample_user 22 ''bob'') [sample_uuid 1]]\<rparr>)),
      sample_state\<lparr>mem_groups := [group_infra\<lparr>Group_Name := ''platform''\<rparr>, group_everyone]\<rparr>)"
proof -
  have a: "Authorize (broken_lookup_api req_rename) (with_group group_infra) ActionUpdate group_infra"
    by (simp add: broken_lookup_api_simps)
  have b: "httpapi_Read (broken_lookup_api req_rename) (with_group group_infra) = Inr req_rename"
    by (simp add: broken_lookup_api_simps)
  have r: "Name req_rename \<noteq> []" and n: "Name req_rename \<noteq> AllUsersGroup"
    by (simp_all add: req_rename_def AllUsersGroup_def)
  have e: "AddUsers req_rename @ RemoveUsers req_rename = []"
    by (simp add: req_rename_def)
  have u: "\<forall>p \<in> set (AddUsers req_rename @ RemoveUsers req_rename). \<exists>u m.
             uuid_Parse p = Inr u \<and>
             GetOrganizationMemberByUserID (Database (broken_lookup_api req_rename)) sample_state
               (Group_OrganizationID group_infra, u) = Inr m"
    by (simp add: e)
  from patchGroup_name_lookup [OF GroupParam_with_group a b r n u]
  show ?thesis
    using a b r n e
    by (simp add: GroupParam_with_group broken_lookup_api_simps broken_lookup_commit)
qed

section \<open>Denied callers\<close>

lemma group_handler_denied:
  "GroupParam r = Return grp \<Longrightarrow> \<not> Authorize api r ActionRead grp \<Longrightarrow>
   group_handler api r s = (Return ResourceNotFound, s)"
  by (simp add: group_handler_def)

lemma deleteGroup_denied:
  "GroupParam r = Return grp \<Longrightarrow> \<not> Authorize api r ActionDelete grp \<Longrightarrow>
   deleteGroup api r s = (Return ResourceNotFound, s)"
  by (simp add: deleteGroup_def)

lemma patchGroup_denied:
  "GroupParam r = Return grp \<Longrightarrow> \<not> Authorize api r ActionUpdate grp \<Longrightarrow>
   patchGroup api r s = (Return http_NotFound, s)"
  by (simp add: patchGroup_def)

lemma ExtractGroupParam_absent:
  "parseUUID mw r ''group'' = Inr groupID \<Longrightarrow> GetGroupByID db s groupID = Inl err \<Longrightarrow>
   errors_Is_ErrNoRows err \<Longrightarrow>
   ExtractGroupParam mw db next r s = (Return ResourceNotFound, s)"
  by (simp add: ExtractGroupParam_def)

lemma http_NotFound_differs: "http_NotFound \<noteq> ResourceNotFound"
  by (simp add: http_NotFound_def ResourceNotFound_def httpapi_Write_def)

text \<open>
  Claim C7 fails for the update handler. A caller who is denied the update of the group
  \<open>infra\<close> gets the plain-text page of \<^verbatim>\<open>http.NotFound\<close>; a request for a group that is
  absent gets the JSON document of \<^verbatim>\<open>httpapi.ResourceNotFound\<close>. Both have status 404 and
  they differ. The handlers that read and delete answer a denied caller as the resolver
  answers for an absent group (\<open>group_handler_denied\<close>, \<open>deleteGroup_denied\<close>,
  \<open>ExtractGroupParam_absent\<close>).
\<close>

theorem patchGroup_denied_differs_from_absent:
  "patchGroup (sample_api False req_rename) (with_group group_infra) sample_state =
     (Return http_NotFound, sample_state) \<and>
   ExtractGroupParam sample_mw mem_store (patchGroup (sample_api False req_rename))
     (sample_request [(''group'', uuid_String (sample_uuid 99))]) sample_state =
     (Return ResourceNotFound, sample_state) \<and>
   status http_NotFound = 404 \<and> status ResourceNotFound = 404 \<and>
   payload http_NotFound = PlainText (''404 page not found'' @ [CHR 0x0A]) \<and>
   payload ResourceNotFound = ResponseJSON
     \<lparr>Message = Lit ''Resource not found or you do not have access to this resource'',
      Detail = None\<rparr> \<and>
   http_NotFound \<noteq> ResourceNotFound"
proof -
  have a: "patchGroup (sample_api False req_rename) (with_group group_infra) sample_state =
             (Return http_NotFound, sample_state)"
    by (rule patchGroup_denied [OF GroupParam_with_group]) (simp add: sample_api_def)
  have b: "ExtractGroupParam sample_mw mem_store (patchGroup (sample_api False req_rename))
             (sample_request [(''group'', uuid_String (sample_uuid 99))]) sample_state =
             (Return ResourceNotFound, sample_state)"
    by (rule ExtractGroupParam_absent [OF sample_parse_group sample_no_group_99]) simp
  show ?thesis
    using a b http_NotFound_differs
    by (simp add: http_NotFound_def ResourceNotFound_def httpapi_Write_def)
qed

end
